theory Spec2Isabelle
  imports Complex_Main "HOL-Library.Multiset" "HOL-Library.Sublist"
begin

section \<open>JavaScript strings\<close>

text \<open>
  A JavaScript string is a sequence of code units; the model uses HOL strings, one
  \<^typ>\<open>char\<close> per code unit below 256. \<open>String.prototype.trim\<close> removes white space and
  line terminators from both ends; below 256 these are TAB, LF, VT, FF, CR, SP and NBSP.
\<close>

definition is_ws :: "char \<Rightarrow> bool" where
  "is_ws c = (c = CHR 0x09 \<or> c = CHR 0x0A \<or> c = CHR 0x0B \<or> c = CHR 0x0C \<or> c = CHR 0x0D
              \<or> c = CHR 0x20 \<or> c = CHR 0xA0)"

definition trim :: "string \<Rightarrow> string" where
  "trim s = rev (dropWhile is_ws (rev (dropWhile is_ws s)))"

text \<open>\<open>s.split('\n')\<close>: the pieces between line feeds; never the empty list.\<close>

fun split_nl :: "string \<Rightarrow> string list" where
  "split_nl [] = [[]]"
| "split_nl (c # cs) =
     (if c = CHR 0x0A then [] # split_nl cs
      else (case split_nl cs of [] \<Rightarrow> [[c]] | l # ls \<Rightarrow> (c # l) # ls))"

text \<open>
  \<open>s.replace(/pat/g, '')\<close> for a literal pattern: matches are found left to right and
  do not overlap; each is deleted.
\<close>

function replace_all :: "string \<Rightarrow> string \<Rightarrow> string" where
  "replace_all pat [] = []"
| "replace_all pat (c # cs) =
     (if pat \<noteq> [] \<and> prefix pat (c # cs)
      then replace_all pat (drop (length pat) (c # cs))
      else c # replace_all pat cs)"
  by pat_completeness auto
termination
  by (relation "measure (\<lambda>(pat, s). length s)") auto

text \<open>
  \<open>s.replace(/^r\//i, '')\<close>: one match at most, anchored at the start; the flag \<open>i\<close>
  lets the first character be \<open>r\<close> or \<open>R\<close>.
\<close>

definition strip_r_slash :: "string \<Rightarrow> string" where
  "strip_r_slash s =
     (case s of
        c1 # c2 # rest \<Rightarrow>
          if (c1 = CHR ''r'' \<or> c1 = CHR ''R'') \<and> c2 = CHR ''/'' then rest else s
      | _ \<Rightarrow> s)"

definition sanitizedTopic :: "string \<Rightarrow> string" where
  "sanitizedTopic topic = strip_r_slash (trim topic)"

definition redditUrl :: "string \<Rightarrow> string" where
  "redditUrl topic = ''https://www.reddit.com/r/'' @ sanitizedTopic topic"

section \<open>JavaScript values\<close>

text \<open>A thrown \<open>Error\<close> object; the handlers read its \<open>message\<close>.\<close>

datatype exn = Exn (message: string)

text \<open>
  What \<open>JSON.parse\<close> returns. A number is given by its exact value. A property that is
  absent reads as \<open>undefined\<close>, which is \<open>None\<close> in \<open>jsval\<close>.
\<close>

datatype json =
    JNull
  | JBool bool
  | JNum rat
  | JStr string
  | JArr "json list"
  | JObj "(string \<times> json) list"

type_synonym jsval = "json option"

text \<open>ToBoolean, as applied by \<open>if (...)\<close> and \<open>&&\<close>.\<close>

fun truthy :: "jsval \<Rightarrow> bool" where
  "truthy None = False"
| "truthy (Some JNull) = False"
| "truthy (Some (JBool b)) = b"
| "truthy (Some (JNum r)) = (r \<noteq> 0)"
| "truthy (Some (JStr s)) = (s \<noteq> [])"
| "truthy (Some (JArr xs)) = True"
| "truthy (Some (JObj kvs)) = True"

text \<open>
  Reading \<open>value.key\<close> for one of the analysis keys: \<open>null\<close> throws a TypeError, an object
  yields the member (the last one when the key is repeated) or \<open>undefined\<close>, every other
  value yields \<open>undefined\<close>.
\<close>

fun get_prop :: "json \<Rightarrow> string \<Rightarrow> exn + jsval" where
  "get_prop JNull key = Inl (Exn (''Cannot read properties of null (reading '' @ key @ '')''))"
| "get_prop (JObj kvs) key = Inr (map_of (rev kvs) key)"
| "get_prop v key = Inr None"

subsection \<open>\<open>Number.prototype.toFixed(1)\<close>\<close>

definition digit :: "nat \<Rightarrow> char" where
  "digit d = ''0123456789'' ! (d mod 10)"

function digits10 :: "nat \<Rightarrow> string" where
  "digits10 n = (if n < 10 then [digit n] else digits10 (n div 10) @ [digit (n mod 10)])"
  by pat_completeness auto
termination
  by (relation "measure id") auto

declare digits10.simps [simp del]

text \<open>
  ECMAScript: with \<open>x\<close> made non-negative, \<open>n\<close> is the integer for which \<open>n / 10 - x\<close> is as
  close to zero as possible, the larger one if there are two; the digits of \<open>n\<close> are
  printed with a point before the last one. This is exact arithmetic on the value of \<open>x\<close>.
\<close>

definition toFixed1 :: "rat \<Rightarrow> string" where
  "toFixed1 x =
     (let n = nat \<lfloor>\<bar>x\<bar> * 10 + 1 / 2\<rfloor>
      in (if x < 0 then ''-'' else []) @ digits10 (n div 10) @ ''.'' @ [digit (n mod 10)])"

subsection \<open>Values in the table\<close>

text \<open>
  The storage classes of SQLite and the affinities of the columns declared by
  \<open>CREATE TABLE results\<close>: \<open>TEXT\<close>, \<open>INTEGER\<close> and \<open>REAL\<close>.
\<close>

datatype sqlval = SqlNull | SqlInteger int | SqlReal rat | SqlText string

datatype affinity = TextAffinity | IntegerAffinity | RealAffinity

text \<open>A parameter that is \<open>undefined\<close> or \<open>null\<close> is bound as \<open>NULL\<close>; no other value is.\<close>

fun is_null :: "jsval \<Rightarrow> bool" where
  "is_null None = True"
| "is_null (Some JNull) = True"
| "is_null (Some v) = False"

text \<open>A number that holds an integer of magnitude at most \<open>2 ^ 50\<close>.\<close>

definition exact_int :: "jsval \<Rightarrow> int option" where
  "exact_int v =
     (case v of
        Some (JNum r) \<Rightarrow>
          (case quotient_of r of (p, q) \<Rightarrow> if q = 1 \<and> \<bar>p\<bar> \<le> 2 ^ 50 then Some p else None)
      | _ \<Rightarrow> None)"

section \<open>The services the handlers call\<close>

text \<open>
  The language model, the HTTP client, the HTML parser, \<open>JSON.parse\<close> and the SQLite
  engine are outside the repository. Their outcomes are taken from an environment:
  \<^item> \<open>generateContent k prompt\<close>: call \<open>k\<close> of \<open>model.generateContent\<close> in a request
    (\<open>0\<close> is the topic suggestion, \<open>Suc i\<close> the analysis of topic \<open>i\<close>); the call throws,
    or returns a response whose \<open>response.text()\<close> throws or returns the text;
  \<^item> \<open>axios_get i url\<close>: the fetch for topic \<open>i\<close> throws or returns \<open>response.data\<close>;
  \<^item> \<open>cheerio_body_text html\<close>: \<open>cheerio.load(html)\<close> followed by \<open>$('body').text()\<close>;
  \<^item> \<open>JSON_parse\<close>: throws a SyntaxError or returns the value;
  \<^item> \<open>db_run_error i\<close>: the error, if any, with which the insert for topic \<open>i\<close> fails for
    a reason outside the statement (an I/O error, a locked file, a handle that was never
    opened); the constraints of the table are checked by \<open>db_run\<close> itself;
  \<^item> \<open>affinity_value a v\<close>: what the engine stores when the bound value \<open>v\<close> goes into a
    column of affinity \<open>a\<close>, for the conversions the model does not compute;
  \<^item> \<open>current_timestamp i\<close>: \<open>CURRENT_TIMESTAMP\<close> at that insert, in seconds;
  \<^item> \<open>db_all_error\<close>: the error, if any, of the \<open>/history\<close> query;
  \<^item> \<open>coerced_mean\<close>: what \<open>((a + b + c + d) / 4).toFixed(1)\<close> prints when the operands
    are not all integers that doubles add exactly (string concatenation, \<open>NaN\<close>, rounding).
\<close>

type_synonym response = "exn + string"

record env =
  generateContent :: "nat \<Rightarrow> string \<Rightarrow> exn + response"
  axios_get :: "nat \<Rightarrow> string \<Rightarrow> exn + string"
  cheerio_body_text :: "string \<Rightarrow> exn + string"
  JSON_parse :: "string \<Rightarrow> exn + json"
  db_run_error :: "nat \<Rightarrow> exn option"
  affinity_value :: "affinity \<Rightarrow> json \<Rightarrow> sqlval"
  current_timestamp :: "nat \<Rightarrow> nat"
  db_all_error :: "exn option"
  coerced_mean :: "jsval \<Rightarrow> jsval \<Rightarrow> jsval \<Rightarrow> jsval \<Rightarrow> string"

subsection \<open>The table \<open>results\<close>\<close>

text \<open>
  A row has the \<open>AUTOINCREMENT\<close> key, the values of the inserted columns and the default
  \<open>createdAt\<close>. \<open>rows\<close> is in key order; \<open>seq\<close> is the largest key handed out.
\<close>

record 'p row =
  rid :: nat
  vals :: 'p
  createdAt :: nat

record 'p store =
  rows :: "'p row list"
  seq :: nat

definition stored_row :: "env \<Rightarrow> nat \<Rightarrow> 'p store \<Rightarrow> 'p \<Rightarrow> 'p store" where
  "stored_row env i db v =
     db\<lparr>rows := rows db @ [\<lparr>rid = Suc (seq db), vals = v,
                               createdAt = current_timestamp env i\<rparr>],
        seq := Suc (seq db)\<rparr>"

text \<open>
  The value a column takes from a bound parameter. A string keeps its text in a \<open>TEXT\<close>
  column and a small integer is an integer in an \<open>INTEGER\<close> column; the other conversions
  (a number into \<open>TEXT\<close>, a numeral string into \<open>INTEGER\<close> or \<open>REAL\<close>, a boolean, an
  object) are the engine's and come from the environment.
\<close>

definition column_value :: "env \<Rightarrow> affinity \<Rightarrow> jsval \<Rightarrow> sqlval" where
  "column_value env a v =
     (case v of
        None \<Rightarrow> SqlNull
      | Some JNull \<Rightarrow> SqlNull
      | Some (JStr s) \<Rightarrow> if a = TextAffinity then SqlText s else affinity_value env a (JStr s)
      | Some j \<Rightarrow>
          (case exact_int (Some j) of
             Some n \<Rightarrow> if a = IntegerAffinity then SqlInteger n else affinity_value env a j
           | None \<Rightarrow> affinity_value env a j))"

text \<open>
  Every column of the table is declared \<open>NOT NULL\<close>: the insert fails on the first
  column, in the order of the statement, whose parameter is bound as \<open>NULL\<close>.
\<close>

definition not_null_violation :: "(string \<times> jsval) list \<Rightarrow> exn option" where
  "not_null_violation columns =
     (case filter (\<lambda>(name, v). is_null v) columns of
        [] \<Rightarrow> None
      | (name, v) # _ \<Rightarrow>
          Some (Exn (''SQLITE_CONSTRAINT: NOT NULL constraint failed: results.'' @ name)))"

text \<open>
  \<open>ORDER BY createdAt DESC\<close> has one sort key. SQLite scans the table in key order and its
  sorter keeps rows that compare equal in scan order, so the sort is stable.
\<close>

definition order_by_createdAt_desc :: "'p row list \<Rightarrow> 'p row list" where
  "order_by_createdAt_desc rs = sort_key (\<lambda>r. - int (createdAt r)) rs"

subsection \<open>HTTP replies\<close>

datatype 'a body = Json "'a list" | Failure (error: string) (details: "string option")

datatype 'a reply = Reply (status: nat) (payload: "'a body")

subsection \<open>Prompts\<close>

definition LF :: string where
  "LF = [CHR 0x0A]"

definition indent :: "string \<Rightarrow> string" where
  "indent s = replicate 12 CHR '' '' @ s @ LF"

definition prompt :: string where
  \<open>prompt = ''Find 3 diverse and popular subreddits where people discuss problems, frustrations, or unmet needs. Provide only the name of each subreddit, one per line (e.g., '' @ [CHR 0x27] @ ''personalfinance'' @ [CHR 0x27] @ '').''\<close>

definition analysisPrompt :: "string \<Rightarrow> string \<Rightarrow> string" where
  \<open>analysisPrompt topic threadContent = LF @ concat
     [indent (''Analyze the following content from the subreddit '' @ [CHR 0x27] @ topic @ [CHR 0x27] @ ''. ''),
      indent ''Act as a Venture Capitalist identifying market gaps. '',
      indent ''Based on the problems, frustrations, and unmet needs discussed, provide:'',
      indent ''1. A single, concrete business idea that could solve a key problem.'',
      indent ''2. A "Gap Probability" score from 0 to 100, representing your confidence that there is a significant, underserved need for this business idea.'',
      indent [],
      indent ''Return ONLY a single, raw JSON object in the format: {"businessIdea": "Your idea here", "gapProbability": percentage}.'',
      indent ''Do not include any other text, formatting, or explanations.'',
      indent [],
      indent ''Content:'',
      indent threadContent] @ replicate 10 CHR '' ''\<close>

definition analysisPrompt_ext :: "string \<Rightarrow> string \<Rightarrow> string" where
  \<open>analysisPrompt_ext topic threadContent = LF @ concat
     [indent (''Analyze the following content from the subreddit '' @ [CHR 0x27] @ topic @ [CHR 0x27] @ ''. ''),
      indent ''Act as a practical business analyst. Based on the content, provide:'',
      indent ''1. A single, concrete business idea.'',
      indent ''2. A score from 0-100 for "Pain Point Severity".'',
      indent ''3. A score from 0-100 for "Audience Scale".'',
      indent ''4. A score from 0-100 for "Monetization Potential".'',
      indent ''5. A score from 0-100 for "Execution Feasibility" (where 100 is very feasible).'',
      indent [],
      indent ''Return ONLY a single, raw JSON object in the format: '',
      indent ''{"businessIdea": "Your idea here", "painPoint": score, "audienceScale": score, "monetizationPotential": score, "feasibility": score}.'',
      indent ''Do not include any other text or formatting.'',
      indent [],
      indent ''Content:'',
      indent threadContent] @ replicate 10 CHR '' ''\<close>

text \<open>
  \<open>analysisResultText.replace(/```json/g, '').replace(/```/g, '').trim()\<close>
\<close>

definition cleanedJsonText :: "string \<Rightarrow> string" where
  "cleanedJsonText analysisResultText =
     trim (replace_all ''```'' (replace_all ''```json'' analysisResultText))"

section \<open>\<open>index.js\<close>: one probability per idea, with the store\<close>

record result =
  link :: string
  idea :: jsval
  probability :: jsval

record params =
  subreddit :: string
  idea_col :: jsval
  probability_col :: jsval

record stored =
  s_subreddit :: sqlval
  s_idea :: sqlval
  s_probability :: sqlval

text \<open>
  \<open>db.run('INSERT INTO results (subreddit, idea, probability) VALUES (?, ?, ?)', [...])\<close>
  on the table \<open>subreddit TEXT NOT NULL, idea TEXT NOT NULL, probability INTEGER NOT NULL\<close>.
  The first parameter is the URL, a string.
\<close>

definition db_run :: "env \<Rightarrow> nat \<Rightarrow> stored store \<Rightarrow> params \<Rightarrow> exn + stored store" where
  "db_run env i db p =
     (case db_run_error env i of
        Some err \<Rightarrow> Inl err
      | None \<Rightarrow>
      (case not_null_violation [(''idea'', idea_col p), (''probability'', probability_col p)] of
        Some err \<Rightarrow> Inl err
      | None \<Rightarrow>
          Inr (stored_row env i db
                 \<lparr>s_subreddit = SqlText (subreddit p),
                  s_idea = column_value env TextAffinity (idea_col p),
                  s_probability = column_value env IntegerAffinity (probability_col p)\<rparr>)))"

text \<open>
  The body of the innermost \<open>try\<close>: the model call, \<open>text()\<close>, the cleaning, \<open>JSON.parse\<close>,
  the guarded insert and the \<open>push\<close>. Whatever is thrown in it, by \<open>db.run\<close> too, is the
  \<open>Inl\<close> that \<open>catch (analysisError)\<close> receives.
\<close>

definition analysis ::
  "env \<Rightarrow> nat \<Rightarrow> string \<Rightarrow> string \<Rightarrow> result list \<times> stored store
     \<Rightarrow> exn + (result list \<times> stored store)" where
  "analysis env i topic threadContent = (\<lambda>(results, db).
     case generateContent env (Suc i) (analysisPrompt (sanitizedTopic topic) threadContent) of
       Inl err \<Rightarrow> Inl err
     | Inr analysisResponse \<Rightarrow>
     (case analysisResponse of
       Inl err \<Rightarrow> Inl err
     | Inr analysisResultText \<Rightarrow>
     (case JSON_parse env (cleanedJsonText analysisResultText) of
       Inl err \<Rightarrow> Inl err
     | Inr analysisResultJson \<Rightarrow>
     (case get_prop analysisResultJson ''businessIdea'' of
       Inl err \<Rightarrow> Inl err
     | Inr businessIdea \<Rightarrow>
     (case get_prop analysisResultJson ''gapProbability'' of
       Inl err \<Rightarrow> Inl err
     | Inr gapProbability \<Rightarrow>
     (case (if truthy businessIdea \<and> truthy gapProbability
            then db_run env i db
                   \<lparr>subreddit = redditUrl topic, idea_col = businessIdea,
                    probability_col = gapProbability\<rparr>
            else Inr db) of
       Inl err \<Rightarrow> Inl err
     | Inr db' \<Rightarrow>
         Inr (results @ [\<lparr>link = redditUrl topic, idea = businessIdea,
                           probability = gapProbability\<rparr>], db')))))))"

text \<open>One iteration of \<open>for (const topic of topics)\<close>, with its three \<open>catch\<close> blocks.\<close>

definition search_topic ::
  "env \<Rightarrow> nat \<Rightarrow> string \<Rightarrow> result list \<times> stored store \<Rightarrow> result list \<times> stored store" where
  "search_topic env i topic = (\<lambda>(results, db).
     case axios_get env i (redditUrl topic) of
       Inl err \<Rightarrow>
         (results @ [\<lparr>link = redditUrl topic,
                      idea = Some (JStr (''Error fetching the subreddit page: '' @ message err)),
                      probability = Some (JNum 0)\<rparr>], db)
     | Inr html \<Rightarrow>
     (case cheerio_body_text env html of
       Inl cheerioError \<Rightarrow>
         (results @ [\<lparr>link = redditUrl topic,
                      idea = Some (JStr ''Error parsing the subreddit page.''),
                      probability = Some (JNum 0)\<rparr>], db)
     | Inr threadContent \<Rightarrow>
     (case analysis env i topic threadContent (results, db) of
       Inl analysisError \<Rightarrow>
         (results @ [\<lparr>link = redditUrl topic,
                      idea = Some (JStr ''Could not generate or parse analysis.''),
                      probability = Some (JNum 0)\<rparr>], db)
     | Inr done \<Rightarrow> done)))"

fun search_loop ::
  "env \<Rightarrow> nat \<Rightarrow> string list \<Rightarrow> result list \<times> stored store \<Rightarrow> result list \<times> stored store" where
  "search_loop env i [] acc = acc"
| "search_loop env i (topic # topics) acc =
     search_loop env (Suc i) topics (search_topic env i topic acc)"

text \<open>
  \<open>GET /search\<close>. A throw of \<open>generateContent\<close> is answered by the inner \<open>catch\<close>; a throw
  of \<open>text()\<close> on the suggestion is outside it and reaches the outer \<open>catch\<close>.
\<close>

definition topics_of :: "string \<Rightarrow> string list" where
  "topics_of redditTopics = filter (\<lambda>topic. trim topic \<noteq> []) (split_nl redditTopics)"

definition search :: "env \<Rightarrow> stored store \<Rightarrow> result reply \<times> stored store" where
  "search env db =
     (case generateContent env 0 prompt of
        Inl geminiError \<Rightarrow>
          (Reply 500 (Failure ''Gemini API Error'' (Some (message geminiError))), db)
      | Inr geminiResponse \<Rightarrow>
      (case geminiResponse of
        Inl err \<Rightarrow> (Reply 500 (Failure ''An error occurred during the search.'' None), db)
      | Inr redditTopics \<Rightarrow>
          (case search_loop env 0 (topics_of redditTopics) ([], db) of
             (results, db') \<Rightarrow> (Reply 200 (Json results), db'))))"

text \<open>
  \<open>GET /history\<close>:
  \<open>SELECT subreddit, idea, probability, createdAt FROM results ORDER BY createdAt DESC\<close>
\<close>

record history_row =
  h_subreddit :: sqlval
  h_idea :: sqlval
  h_probability :: sqlval
  h_createdAt :: nat

definition select_columns :: "stored row \<Rightarrow> history_row" where
  "select_columns r =
     \<lparr>h_subreddit = s_subreddit (vals r), h_idea = s_idea (vals r),
      h_probability = s_probability (vals r), h_createdAt = createdAt r\<rparr>"

definition history :: "env \<Rightarrow> stored store \<Rightarrow> history_row reply" where
  "history env db =
     (case db_all_error env of
        Some err \<Rightarrow> Reply 500 (Failure ''Failed to retrieve search history.'' None)
      | None \<Rightarrow> Reply 200 (Json (map select_columns (order_by_createdAt_desc (rows db)))))"

section \<open>The revision without a store\<close>

text \<open>The same handler before the table was added: no insert, no \<open>/history\<close>.\<close>

definition analysis_plain ::
  "env \<Rightarrow> nat \<Rightarrow> string \<Rightarrow> string \<Rightarrow> result list \<Rightarrow> exn + result list" where
  "analysis_plain env i topic threadContent results =
     (case generateContent env (Suc i) (analysisPrompt (sanitizedTopic topic) threadContent) of
       Inl err \<Rightarrow> Inl err
     | Inr analysisResponse \<Rightarrow>
     (case analysisResponse of
       Inl err \<Rightarrow> Inl err
     | Inr analysisResultText \<Rightarrow>
     (case JSON_parse env (cleanedJsonText analysisResultText) of
       Inl err \<Rightarrow> Inl err
     | Inr analysisResultJson \<Rightarrow>
     (case get_prop analysisResultJson ''businessIdea'' of
       Inl err \<Rightarrow> Inl err
     | Inr businessIdea \<Rightarrow>
     (case get_prop analysisResultJson ''gapProbability'' of
       Inl err \<Rightarrow> Inl err
     | Inr gapProbability \<Rightarrow>
         Inr (results @ [\<lparr>link = redditUrl topic, idea = businessIdea,
                           probability = gapProbability\<rparr>]))))))"

definition search_topic_plain :: "env \<Rightarrow> nat \<Rightarrow> string \<Rightarrow> result list \<Rightarrow> result list" where
  "search_topic_plain env i topic results =
     (case axios_get env i (redditUrl topic) of
       Inl err \<Rightarrow>
         results @ [\<lparr>link = redditUrl topic,
                     idea = Some (JStr (''Error fetching the subreddit page: '' @ message err)),
                     probability = Some (JNum 0)\<rparr>]
     | Inr html \<Rightarrow>
     (case cheerio_body_text env html of
       Inl cheerioError \<Rightarrow>
         results @ [\<lparr>link = redditUrl topic,
                     idea = Some (JStr ''Error parsing the subreddit page.''),
                     probability = Some (JNum 0)\<rparr>]
     | Inr threadContent \<Rightarrow>
     (case analysis_plain env i topic threadContent results of
       Inl analysisError \<Rightarrow>
         results @ [\<lparr>link = redditUrl topic,
                     idea = Some (JStr ''Could not generate or parse analysis.''),
                     probability = Some (JNum 0)\<rparr>]
     | Inr done \<Rightarrow> done)))"

fun search_loop_plain :: "env \<Rightarrow> nat \<Rightarrow> string list \<Rightarrow> result list \<Rightarrow> result list" where
  "search_loop_plain env i [] results = results"
| "search_loop_plain env i (topic # topics) results =
     search_loop_plain env (Suc i) topics (search_topic_plain env i topic results)"

definition search_plain :: "env \<Rightarrow> result reply" where
  "search_plain env =
     (case generateContent env 0 prompt of
        Inl geminiError \<Rightarrow> Reply 500 (Failure ''Gemini API Error'' (Some (message geminiError)))
      | Inr geminiResponse \<Rightarrow>
      (case geminiResponse of
        Inl err \<Rightarrow> Reply 500 (Failure ''An error occurred during the search.'' None)
      | Inr redditTopics \<Rightarrow>
          Reply 200 (Json (search_loop_plain env 0 (topics_of redditTopics) []))))"

section \<open>The revision with four sub-scores\<close>

record result_ext =
  link_ext :: string
  idea_ext :: jsval
  pain :: jsval
  audience :: jsval
  monetization :: jsval
  feasibility :: jsval
  overall :: jsval

record params_ext =
  subreddit_ext :: string
  idea_col_ext :: jsval
  pain_point :: jsval
  audience_scale :: jsval
  monetization_potential :: jsval
  feasibility_col :: jsval
  overall_score :: string

text \<open>
  \<open>((painPoint + audienceScale + monetizationPotential + feasibility) / 4).toFixed(1)\<close>.
  When the four operands are numbers holding integers of magnitude at most \<open>2 ^ 50\<close>
  (\<open>exact_int\<close>), the double additions and the division by four are exact and \<open>toFixed\<close> sees the exact mean.
  For any other operands the printed string is the environment's \<open>coerced_mean\<close>.
\<close>

definition overallScore :: "env \<Rightarrow> jsval \<Rightarrow> jsval \<Rightarrow> jsval \<Rightarrow> jsval \<Rightarrow> string" where
  "overallScore env painPoint audienceScale monetizationPotential feasibility' =
     (case (exact_int painPoint, exact_int audienceScale,
            exact_int monetizationPotential, exact_int feasibility') of
        (Some a, Some b, Some c, Some d) \<Rightarrow> toFixed1 (of_int (a + b + c + d) / 4)
      | _ \<Rightarrow> coerced_mean env painPoint audienceScale monetizationPotential feasibility')"

record stored_ext =
  x_subreddit :: sqlval
  x_idea :: sqlval
  x_pain_point :: sqlval
  x_audience_scale :: sqlval
  x_monetization_potential :: sqlval
  x_feasibility :: sqlval
  x_overall_score :: sqlval

text \<open>
  The insert of seven parameters on the table \<open>subreddit TEXT NOT NULL, idea TEXT NOT NULL,
  pain_point INTEGER NOT NULL, audience_scale INTEGER NOT NULL, monetization_potential
  INTEGER NOT NULL, feasibility INTEGER NOT NULL, overall_score REAL NOT NULL\<close>. The URL
  and the overall score are strings.
\<close>

definition db_run_ext ::
  "env \<Rightarrow> nat \<Rightarrow> stored_ext store \<Rightarrow> params_ext \<Rightarrow> exn + stored_ext store" where
  "db_run_ext env i db p =
     (case db_run_error env i of
        Some err \<Rightarrow> Inl err
      | None \<Rightarrow>
      (case not_null_violation
              [(''idea'', idea_col_ext p), (''pain_point'', pain_point p),
               (''audience_scale'', audience_scale p),
               (''monetization_potential'', monetization_potential p),
               (''feasibility'', feasibility_col p)] of
        Some err \<Rightarrow> Inl err
      | None \<Rightarrow>
          Inr (stored_row env i db
                 \<lparr>x_subreddit = SqlText (subreddit_ext p),
                  x_idea = column_value env TextAffinity (idea_col_ext p),
                  x_pain_point = column_value env IntegerAffinity (pain_point p),
                  x_audience_scale = column_value env IntegerAffinity (audience_scale p),
                  x_monetization_potential =
                    column_value env IntegerAffinity (monetization_potential p),
                  x_feasibility = column_value env IntegerAffinity (feasibility_col p),
                  x_overall_score =
                    column_value env RealAffinity (Some (JStr (overall_score p)))\<rparr>)))"

definition analysis_ext ::
  "env \<Rightarrow> nat \<Rightarrow> string \<Rightarrow> string \<Rightarrow> result_ext list \<times> stored_ext store
     \<Rightarrow> exn + (result_ext list \<times> stored_ext store)" where
  "analysis_ext env i topic threadContent = (\<lambda>(results, db).
     case generateContent env (Suc i) (analysisPrompt_ext (sanitizedTopic topic) threadContent) of
       Inl err \<Rightarrow> Inl err
     | Inr analysisResponse \<Rightarrow>
     (case analysisResponse of
       Inl err \<Rightarrow> Inl err
     | Inr analysisResultText \<Rightarrow>
     (case JSON_parse env (cleanedJsonText analysisResultText) of
       Inl err \<Rightarrow> Inl err
     | Inr analysisResultJson \<Rightarrow>
     (case get_prop analysisResultJson ''businessIdea'' of
       Inl err \<Rightarrow> Inl err
     | Inr businessIdea \<Rightarrow>
     (case get_prop analysisResultJson ''painPoint'' of
       Inl err \<Rightarrow> Inl err
     | Inr painPoint \<Rightarrow>
     (case get_prop analysisResultJson ''audienceScale'' of
       Inl err \<Rightarrow> Inl err
     | Inr audienceScale \<Rightarrow>
     (case get_prop analysisResultJson ''monetizationPotential'' of
       Inl err \<Rightarrow> Inl err
     | Inr monetizationPotential \<Rightarrow>
     (case get_prop analysisResultJson ''feasibility'' of
       Inl err \<Rightarrow> Inl err
     | Inr feasibility' \<Rightarrow>
     (let overallScore' =
            overallScore env painPoint audienceScale monetizationPotential feasibility'
      in
      case (if truthy businessIdea
            then db_run_ext env i db
                   \<lparr>subreddit_ext = redditUrl topic, idea_col_ext = businessIdea,
                    pain_point = painPoint, audience_scale = audienceScale,
                    monetization_potential = monetizationPotential,
                    feasibility_col = feasibility', overall_score = overallScore'\<rparr>
            else Inr db) of
       Inl err \<Rightarrow> Inl err
     | Inr db' \<Rightarrow>
         Inr (results @ [\<lparr>link_ext = redditUrl topic, idea_ext = businessIdea,
                           pain = painPoint, audience = audienceScale,
                           monetization = monetizationPotential, feasibility = feasibility',
                           overall = Some (JStr overallScore')\<rparr>], db'))))))))))"

definition placeholder_ext :: "string \<Rightarrow> string \<Rightarrow> result_ext" where
  "placeholder_ext url text =
     \<lparr>link_ext = url, idea_ext = Some (JStr text), pain = None, audience = None,
      monetization = None, feasibility = None, overall = Some (JNum 0)\<rparr>"

definition search_topic_ext ::
  "env \<Rightarrow> nat \<Rightarrow> string \<Rightarrow> result_ext list \<times> stored_ext store
     \<Rightarrow> result_ext list \<times> stored_ext store" where
  "search_topic_ext env i topic = (\<lambda>(results, db).
     case axios_get env i (redditUrl topic) of
       Inl err \<Rightarrow>
         (results @ [placeholder_ext (redditUrl topic)
                       (''Error fetching the subreddit page: '' @ message err)], db)
     | Inr html \<Rightarrow>
     (case cheerio_body_text env html of
       Inl cheerioError \<Rightarrow>
         (results @ [placeholder_ext (redditUrl topic) ''Error parsing the subreddit page.''], db)
     | Inr threadContent \<Rightarrow>
     (case analysis_ext env i topic threadContent (results, db) of
       Inl analysisError \<Rightarrow>
         (results @ [placeholder_ext (redditUrl topic)
                       ''Could not generate or parse analysis.''], db)
     | Inr done \<Rightarrow> done)))"

fun search_loop_ext ::
  "env \<Rightarrow> nat \<Rightarrow> string list \<Rightarrow> result_ext list \<times> stored_ext store
     \<Rightarrow> result_ext list \<times> stored_ext store" where
  "search_loop_ext env i [] acc = acc"
| "search_loop_ext env i (topic # topics) acc =
     search_loop_ext env (Suc i) topics (search_topic_ext env i topic acc)"

definition search_ext :: "env \<Rightarrow> stored_ext store \<Rightarrow> result_ext reply \<times> stored_ext store" where
  "search_ext env db =
     (case generateContent env 0 prompt of
        Inl geminiError \<Rightarrow>
          (Reply 500 (Failure ''Gemini API Error'' (Some (message geminiError))), db)
      | Inr geminiResponse \<Rightarrow>
      (case geminiResponse of
        Inl err \<Rightarrow> (Reply 500 (Failure ''An error occurred during the search.'' None), db)
      | Inr redditTopics \<Rightarrow>
          (case search_loop_ext env 0 (topics_of redditTopics) ([], db) of
             (results, db') \<Rightarrow> (Reply 200 (Json results), db'))))"

text \<open>\<open>GET /history\<close>: \<open>SELECT * FROM results ORDER BY createdAt DESC\<close>\<close>

definition history_ext :: "env \<Rightarrow> stored_ext store \<Rightarrow> stored_ext row reply" where
  "history_ext env db =
     (case db_all_error env of
        Some err \<Rightarrow> Reply 500 (Failure ''Failed to retrieve search history.'' None)
      | None \<Rightarrow> Reply 200 (Json (order_by_createdAt_desc (rows db))))"

section \<open>Notions used to state the properties\<close>

text \<open>A line is blank when every character of it is white space.\<close>

definition nonblank :: "string \<Rightarrow> bool" where
  "nonblank l = (\<exists>c\<in>set l. \<not> is_ws c)"

text \<open>
  The values a parsed analysis holds, read before the guard of the insert: the part of
  \<open>analysis\<close> that depends neither on the store nor on the list built so far.
\<close>

definition analysed :: "env \<Rightarrow> nat \<Rightarrow> string \<Rightarrow> string \<Rightarrow> exn + (jsval \<times> jsval)" where
  "analysed env i topic threadContent =
     (case generateContent env (Suc i) (analysisPrompt (sanitizedTopic topic) threadContent) of
       Inl err \<Rightarrow> Inl err
     | Inr analysisResponse \<Rightarrow>
     (case analysisResponse of
       Inl err \<Rightarrow> Inl err
     | Inr analysisResultText \<Rightarrow>
     (case JSON_parse env (cleanedJsonText analysisResultText) of
       Inl err \<Rightarrow> Inl err
     | Inr analysisResultJson \<Rightarrow>
     (case get_prop analysisResultJson ''businessIdea'' of
       Inl err \<Rightarrow> Inl err
     | Inr businessIdea \<Rightarrow>
     (case get_prop analysisResultJson ''gapProbability'' of
       Inl err \<Rightarrow> Inl err
     | Inr gapProbability \<Rightarrow> Inr (businessIdea, gapProbability))))))"

text \<open>The entry that iteration \<open>i\<close> appends for \<open>topic\<close>.\<close>

definition topic_result :: "env \<Rightarrow> nat \<Rightarrow> string \<Rightarrow> result" where
  "topic_result env i topic =
     last (fst (search_topic env i topic ([], \<lparr>rows = [], seq = 0\<rparr>)))"

text \<open>
  Two environments that differ at most in what the services answer for topic \<open>i\<close>: its
  fetch, its analysis call, its insert and the time of the insert.
\<close>

definition same_elsewhere :: "nat \<Rightarrow> env \<Rightarrow> env \<Rightarrow> bool" where
  "same_elsewhere i env env' =
     (generateContent env' 0 = generateContent env 0
      \<and> (\<forall>j. j \<noteq> i \<longrightarrow>
             axios_get env' j = axios_get env j
           \<and> generateContent env' (Suc j) = generateContent env (Suc j)
           \<and> db_run_error env' j = db_run_error env j
           \<and> current_timestamp env' j = current_timestamp env j)
      \<and> cheerio_body_text env' = cheerio_body_text env
      \<and> JSON_parse env' = JSON_parse env)"

definition inject_fetch_failure :: "nat \<Rightarrow> exn \<Rightarrow> env \<Rightarrow> env" where
  "inject_fetch_failure i err env =
     env\<lparr>axios_get := (\<lambda>j url. if j = i then Inl err else axios_get env j url)\<rparr>"

text \<open>The number a decimal numeral with a point denotes, and rounding to tenths.\<close>

definition digit_value :: "char \<Rightarrow> nat" where
  "digit_value c = of_char c - 48"

definition value10 :: "string \<Rightarrow> nat" where
  "value10 s = foldl (\<lambda>acc c. 10 * acc + digit_value c) 0 s"

definition decimal_value :: "string \<Rightarrow> rat" where
  "decimal_value s =
     (let whole = takeWhile (\<lambda>c. c \<noteq> CHR ''.'') s;
          frac = drop 1 (dropWhile (\<lambda>c. c \<noteq> CHR ''.'') s)
      in of_nat (value10 whole) + of_nat (value10 frac) / 10 ^ length frac)"

definition mean4 :: "int \<Rightarrow> int \<Rightarrow> int \<Rightarrow> int \<Rightarrow> rat" where
  "mean4 a b c d = (of_int a + of_int b + of_int c + of_int d) / 4"

definition round1 :: "rat \<Rightarrow> rat" where
  "round1 x = of_int \<lfloor>x * 10 + 1 / 2\<rfloor> / 10"

subsection \<open>A sample run\<close>

text \<open>
  Three suggested topics with a blank line between them. The model answers the first
  analysis with a fenced object, the second with text that is not JSON, the third with an
  object whose idea is empty.
\<close>

definition sample_topics :: string where
  "sample_topics = ''r/aww'' @ LF @ ''  '' @ LF @ ''R/cats'' @ LF @ '' diy ''"

definition sample_object :: string where
  \<open>sample_object = ''{"businessIdea": "Pet sitting exchange", "gapProbability": 70}''\<close>

definition sample_object_ext :: string where
  \<open>sample_object_ext = ''{"businessIdea": "Pet sitting exchange", "painPoint": 80, "audienceScale": 60, "monetizationPotential": 40, "feasibility": 90}''\<close>

definition sample_object_idea_only :: string where
  \<open>sample_object_idea_only = ''{"businessIdea": "Pet sitting exchange"}''\<close>

definition sample_parse :: "string \<Rightarrow> exn + json" where
  \<open>sample_parse s =
     (if s = sample_object
      then Inr (JObj [(''businessIdea'', JStr ''Pet sitting exchange''), (''gapProbability'', JNum 70)])
      else if s = sample_object_ext
      then Inr (JObj [(''businessIdea'', JStr ''Pet sitting exchange''), (''painPoint'', JNum 80),
                      (''audienceScale'', JNum 60), (''monetizationPotential'', JNum 40),
                      (''feasibility'', JNum 90)])
      else if s = sample_object_idea_only
      then Inr (JObj [(''businessIdea'', JStr ''Pet sitting exchange'')])
      else if s = ''{"businessIdea": ""}''
      then Inr (JObj [(''businessIdea'', JStr [])])
      else Inl (Exn ''Unexpected token''))\<close>

definition sample_env :: env where
  \<open>sample_env =
     \<lparr>generateContent = (\<lambda>k p.
         if k = 0 then Inr (Inr sample_topics)
         else if k = 1 then Inr (Inr (''```json'' @ LF @ sample_object @ LF @ ''```''))
         else if k = 2 then Inr (Inr ''Sorry, no idea.'')
         else Inr (Inr ''{"businessIdea": ""}'')),
      axios_get = (\<lambda>i url. Inr ''<body>posts</body>''),
      cheerio_body_text = (\<lambda>html. Inr ''posts''),
      JSON_parse = sample_parse,
      db_run_error = (\<lambda>i. None),
      affinity_value = (\<lambda>a v.
         if a = RealAffinity \<and> v = JStr ''67.5'' then SqlReal (135 / 2) else SqlText ''NaN''),
      current_timestamp = (\<lambda>i. 1700000000),
      db_all_error = None,
      coerced_mean = (\<lambda>a b c d. ''NaN'')\<rparr>\<close>

definition sample_env_ext :: env where
  \<open>sample_env_ext =
     sample_env\<lparr>generateContent := (\<lambda>k p.
         if k = 0 then Inr (Inr ''aww'') else Inr (Inr sample_object_ext))\<rparr>\<close>

text \<open>The analysis has an idea and none of the four sub-scores.\<close>

definition sample_env_ext_missing :: env where
  \<open>sample_env_ext_missing =
     sample_env\<lparr>generateContent := (\<lambda>k p.
         if k = 0 then Inr (Inr ''aww'') else Inr (Inr sample_object_idea_only))\<rparr>\<close>

text \<open>The same run with every analysis answered by the plain object.\<close>

definition sample_env_ok :: env where
  "sample_env_ok =
     sample_env\<lparr>generateContent := (\<lambda>k p.
         if k = 0 then Inr (Inr sample_topics) else Inr (Inr sample_object))\<rparr>"

text \<open>The suggestion call returns, but its response has no text to read.\<close>

definition sample_env_blocked :: env where
  "sample_env_blocked =
     sample_env\<lparr>generateContent := (\<lambda>k p. Inr (Inl (Exn ''Text not available.'')))\<rparr>"

text \<open>The insert for the first topic fails for a reason outside the statement.\<close>

definition sample_env_reject :: env where
  "sample_env_reject =
     sample_env_ok\<lparr>db_run_error := (\<lambda>i. if i = 0 then Some (Exn ''SQLITE_BUSY'') else None)\<rparr>"

definition sample_env_ext_reject :: env where
  "sample_env_ext_reject =
     sample_env_ext\<lparr>db_run_error := (\<lambda>i. if i = 0 then Some (Exn ''SQLITE_BUSY'') else None)\<rparr>"

definition empty_store :: "'p store" where
  "empty_store = \<lparr>rows = [], seq = 0\<rparr>"

section \<open>Topic normalisation\<close>

text \<open>
  C7, as the code has it. The topic is trimmed, then one leading marker is removed, and
  the marker is matched without regard to case: \<open>r/\<close> or \<open>R/\<close>. Only the first marker
  goes (\<open>drop 2\<close>); a trimmed topic that starts with neither is kept as it is. The URL
  is the base, \<open>/r/\<close> and the normalised topic.
\<close>

theorem sanitizedTopic_case_insensitive:
  "sanitizedTopic topic =
     (if prefix ''r/'' (trim topic) \<or> prefix ''R/'' (trim topic)
      then drop 2 (trim topic) else trim topic)
   \<and> redditUrl topic = ''https://www.reddit.com'' @ ''/r/'' @ sanitizedTopic topic"
proof -
  have "strip_r_slash s = (if prefix ''r/'' s \<or> prefix ''R/'' s then drop 2 s else s)" for s
    by (auto simp: strip_r_slash_def prefix_def split: list.splits)
  then show ?thesis
    by (simp add: sanitizedTopic_def redditUrl_def)
qed

theorem sanitizedTopic_case_insensitive_witness:
  "sanitizedTopic '' r/r/aww '' = ''r/aww''
   \<and> redditUrl '' r/r/aww '' = ''https://www.reddit.com/r/r/aww''
   \<and> sanitizedTopic ''diy'' = ''diy''"
  using sanitizedTopic_case_insensitive [of "'' r/r/aww ''"]
        sanitizedTopic_case_insensitive [of "''diy''"]
  by (simp add: trim_def is_ws_def)

text \<open>
  C7 as stated fails: \<open>R/cats\<close> does not start with the marker \<open>r/\<close>, yet it is not used
  verbatim.
\<close>

theorem uppercase_marker_counterexample:
  "\<not> prefix ''r/'' (trim ''R/cats'')
   \<and> sanitizedTopic ''R/cats'' \<noteq> trim ''R/cats''
   \<and> redditUrl ''R/cats'' = ''https://www.reddit.com/r/cats''"
  by (simp add: sanitizedTopic_def redditUrl_def strip_r_slash_def trim_def is_ws_def)

section \<open>The loop appends one entry per topic\<close>

lemma trim_Nil_iff: "trim l = [] \<longleftrightarrow> (\<forall>c\<in>set l. is_ws c)"
proof
  assume "trim l = []"
  then have all: "\<forall>c\<in>set (dropWhile is_ws l). is_ws c"
    by (simp add: trim_def)
  have "dropWhile is_ws l = []"
  proof (rule ccontr)
    assume ne: "dropWhile is_ws l \<noteq> []"
    then have "\<not> is_ws (hd (dropWhile is_ws l))" by (rule hd_dropWhile)
    moreover have "hd (dropWhile is_ws l) \<in> set (dropWhile is_ws l)" using ne by simp
    ultimately show False using all by blast
  qed
  then show "\<forall>c\<in>set l. is_ws c" by simp
next
  assume "\<forall>c\<in>set l. is_ws c"
  then have "\<forall>c\<in>set (dropWhile is_ws l). is_ws c"
    by (blast dest: set_dropWhileD)
  then show "trim l = []" by (simp add: trim_def)
qed

lemma topics_of_nonblank: "topics_of raw = filter nonblank (split_nl raw)"
proof -
  have "(trim l \<noteq> []) = nonblank l" for l
    by (simp add: nonblank_def trim_Nil_iff)
  then show ?thesis by (simp add: topics_of_def)
qed

lemma truthy_not_null: "truthy v \<Longrightarrow> \<not> is_null v"
  by (cases v rule: is_null.cases) simp_all

lemma not_null_violation_None:
  "not_null_violation columns = None \<longleftrightarrow> (\<forall>(name, v)\<in>set columns. \<not> is_null v)"
proof -
  have "not_null_violation columns = None \<longleftrightarrow> filter (\<lambda>(name, v). is_null v) columns = []"
    by (simp add: not_null_violation_def split: list.split prod.split)
  then show ?thesis
    by (auto simp: filter_empty_conv)
qed

lemma db_run_truthy:
  assumes "truthy bi" and "truthy gp"
  shows "db_run env i db \<lparr>subreddit = url, idea_col = bi, probability_col = gp\<rparr> =
           (case db_run_error env i of
              Some err \<Rightarrow> Inl err
            | None \<Rightarrow>
                Inr (db\<lparr>rows := rows db @
                              [\<lparr>rid = Suc (seq db),
                                vals = \<lparr>s_subreddit = SqlText url,
                                        s_idea = column_value env TextAffinity bi,
                                        s_probability = column_value env IntegerAffinity gp\<rparr>,
                                createdAt = current_timestamp env i\<rparr>],
                        seq := Suc (seq db)\<rparr>))"
proof -
  have "not_null_violation [(''idea'', bi), (''probability'', gp)] = None"
    using assms by (simp add: not_null_violation_None truthy_not_null)
  then show ?thesis
    by (simp add: db_run_def stored_row_def split: option.split)
qed

lemma analysis_eq:
  "analysis env i topic tc (rs, db) =
     (case analysed env i topic tc of
        Inl err \<Rightarrow> Inl err
      | Inr (bi, gp) \<Rightarrow>
          (case (if truthy bi \<and> truthy gp
                 then db_run env i db \<lparr>subreddit = redditUrl topic, idea_col = bi, probability_col = gp\<rparr>
                 else Inr db) of
             Inl err \<Rightarrow> Inl err
           | Inr db' \<Rightarrow> Inr (rs @ [\<lparr>link = redditUrl topic, idea = bi, probability = gp\<rparr>], db')))"
  unfolding analysis_def analysed_def
  by (simp split: sum.split)

text \<open>The entry of a topic, stage by stage; it does not depend on the store.\<close>

lemma search_topic_formula:
  "search_topic env i topic (rs, db) =
     (case axios_get env i (redditUrl topic) of
        Inl err \<Rightarrow>
          (rs @ [\<lparr>link = redditUrl topic,
                  idea = Some (JStr (''Error fetching the subreddit page: '' @ message err)),
                  probability = Some (JNum 0)\<rparr>], db)
      | Inr html \<Rightarrow>
      (case cheerio_body_text env html of
        Inl err \<Rightarrow>
          (rs @ [\<lparr>link = redditUrl topic,
                  idea = Some (JStr ''Error parsing the subreddit page.''),
                  probability = Some (JNum 0)\<rparr>], db)
      | Inr tc \<Rightarrow>
      (case analysed env i topic tc of
        Inl err \<Rightarrow>
          (rs @ [\<lparr>link = redditUrl topic,
                  idea = Some (JStr ''Could not generate or parse analysis.''),
                  probability = Some (JNum 0)\<rparr>], db)
      | Inr (bi, gp) \<Rightarrow>
          if truthy bi \<and> truthy gp
          then (case db_run_error env i of
                  Some err \<Rightarrow>
                    (rs @ [\<lparr>link = redditUrl topic,
                            idea = Some (JStr ''Could not generate or parse analysis.''),
                            probability = Some (JNum 0)\<rparr>], db)
                | None \<Rightarrow>
                    (rs @ [\<lparr>link = redditUrl topic, idea = bi, probability = gp\<rparr>],
                     db\<lparr>rows := rows db @
                               [\<lparr>rid = Suc (seq db),
                                 vals = \<lparr>s_subreddit = SqlText (redditUrl topic),
                                         s_idea = column_value env TextAffinity bi,
                                         s_probability = column_value env IntegerAffinity gp\<rparr>,
                                 createdAt = current_timestamp env i\<rparr>],
                         seq := Suc (seq db)\<rparr>))
          else (rs @ [\<lparr>link = redditUrl topic, idea = bi, probability = gp\<rparr>], db))))"
  by (simp add: search_topic_def analysis_eq db_run_truthy
           split: sum.split option.split prod.split)

lemma topic_result_formula:
  "topic_result env i topic =
     (case axios_get env i (redditUrl topic) of
        Inl err \<Rightarrow>
          \<lparr>link = redditUrl topic,
           idea = Some (JStr (''Error fetching the subreddit page: '' @ message err)),
           probability = Some (JNum 0)\<rparr>
      | Inr html \<Rightarrow>
      (case cheerio_body_text env html of
        Inl err \<Rightarrow>
          \<lparr>link = redditUrl topic, idea = Some (JStr ''Error parsing the subreddit page.''),
           probability = Some (JNum 0)\<rparr>
      | Inr tc \<Rightarrow>
      (case analysed env i topic tc of
        Inl err \<Rightarrow>
          \<lparr>link = redditUrl topic, idea = Some (JStr ''Could not generate or parse analysis.''),
           probability = Some (JNum 0)\<rparr>
      | Inr (bi, gp) \<Rightarrow>
          if truthy bi \<and> truthy gp \<and> db_run_error env i \<noteq> None
          then \<lparr>link = redditUrl topic,
                idea = Some (JStr ''Could not generate or parse analysis.''),
                probability = Some (JNum 0)\<rparr>
          else \<lparr>link = redditUrl topic, idea = bi, probability = gp\<rparr>)))"
  by (simp add: topic_result_def search_topic_formula split: sum.split option.split prod.split)

lemma search_topic_fst:
  "fst (search_topic env i topic (rs, db)) = rs @ [topic_result env i topic]"
  by (simp add: topic_result_formula search_topic_formula
           split: sum.split option.split prod.split)

lemma link_topic_result: "link (topic_result env i topic) = redditUrl topic"
  by (simp add: topic_result_formula split: sum.split option.split prod.split)

lemma search_loop_fst:
  "fst (search_loop env i ts (rs, db)) =
     rs @ map (\<lambda>(k, t). topic_result env k t) (zip [i ..< i + length ts] ts)"
proof (induction ts arbitrary: i rs db)
  case Nil
  then show ?case by simp
next
  case (Cons t ts)
  obtain rs' db' where step: "search_topic env i t (rs, db) = (rs', db')"
    by (cases "search_topic env i t (rs, db)")
  have rs': "rs' = rs @ [topic_result env i t]"
    using search_topic_fst [of env i t rs db] step by simp
  have "[i ..< i + length (t # ts)] = i # [Suc i ..< Suc i + length ts]"
    by (simp add: upt_rec)
  then show ?case
    using Cons.IH [of "Suc i" rs' db'] step rs' by simp
qed

lemma search_suggested:
  assumes "generateContent env 0 prompt = Inr (Inr raw)"
  shows "search env db =
           (Reply 200 (Json (map (\<lambda>(k, t). topic_result env k t)
                               (zip [0 ..< length (topics_of raw)] (topics_of raw)))),
            snd (search_loop env 0 (topics_of raw) ([], db)))"
proof -
  obtain rs db' where l: "search_loop env 0 (topics_of raw) ([], db) = (rs, db')"
    by (cases "search_loop env 0 (topics_of raw) ([], db)")
  then show ?thesis
    using assms search_loop_fst [of env 0 "topics_of raw" "[]" db]
    by (simp add: search_def)
qed

text \<open>
  C1. When the suggestion call returns text, \<open>/search\<close> answers 200 with a list that has
  one entry for each non-blank line of that text, in the order of the lines: entry \<open>k\<close>
  carries the URL of line \<open>k\<close> and is what iteration \<open>k\<close> of the loop produced for it.
\<close>

theorem search_one_entry_per_nonblank_line:
  assumes "generateContent env 0 prompt = Inr (Inr raw)"
  shows "\<exists>results db'.
           search env db = (Reply 200 (Json results), db')
         \<and> length results = length (filter nonblank (split_nl raw))
         \<and> map link results = map redditUrl (filter nonblank (split_nl raw))
         \<and> (\<forall>k < length results.
               results ! k = topic_result env k (filter nonblank (split_nl raw) ! k))"
proof -
  let ?ts = "filter nonblank (split_nl raw)"
  let ?rs = "map (\<lambda>(k, t). topic_result env k t) (zip [0 ..< length ?ts] ?ts)"
  have s: "search env db = (Reply 200 (Json ?rs), snd (search_loop env 0 ?ts ([], db)))"
    using search_suggested [OF assms, of db] by (simp add: topics_of_nonblank)
  have len: "length ?rs = length ?ts" by simp
  have nth: "?rs ! k = topic_result env k (?ts ! k)" if "k < length ?ts" for k
    using that by simp
  have "map link ?rs = map redditUrl ?ts"
    by (rule nth_equalityI) (simp_all add: link_topic_result)
  with s len nth show ?thesis by auto
qed

theorem search_one_entry_per_nonblank_line_witness:
  "generateContent sample_env 0 prompt = Inr (Inr sample_topics)
   \<and> filter nonblank (split_nl sample_topics) = [''r/aww'', ''R/cats'', '' diy '']
   \<and> (\<exists>results db'.
         search sample_env empty_store = (Reply 200 (Json results), db')
       \<and> length results = 3
       \<and> map link results = [''https://www.reddit.com/r/aww'', ''https://www.reddit.com/r/cats'',
                              ''https://www.reddit.com/r/diy''])"
proof -
  have g: "generateContent sample_env 0 prompt = Inr (Inr sample_topics)"
    by (simp add: sample_env_def)
  have ts: "filter nonblank (split_nl sample_topics) = [''r/aww'', ''R/cats'', '' diy '']"
    by (simp add: sample_topics_def LF_def nonblank_def is_ws_def)
  have urls: "map redditUrl [''r/aww'', ''R/cats'', '' diy ''] =
          [''https://www.reddit.com/r/aww'', ''https://www.reddit.com/r/cats'',
           ''https://www.reddit.com/r/diy'']"
    by (simp add: redditUrl_def sanitizedTopic_def strip_r_slash_def trim_def is_ws_def)
  show ?thesis
    using search_one_entry_per_nonblank_line [OF g, of empty_store] g ts urls
    by auto
qed

section \<open>Failures of a single topic\<close>

lemma analysed_errors:
  "generateContent env (Suc i) (analysisPrompt (sanitizedTopic topic) tc) = Inl err
     \<Longrightarrow> analysed env i topic tc = Inl err"
  "generateContent env (Suc i) (analysisPrompt (sanitizedTopic topic) tc) = Inr (Inl err)
     \<Longrightarrow> analysed env i topic tc = Inl err"
  "generateContent env (Suc i) (analysisPrompt (sanitizedTopic topic) tc) = Inr (Inr text)
     \<Longrightarrow> JSON_parse env (cleanedJsonText text) = Inl err
     \<Longrightarrow> analysed env i topic tc = Inl err"
  by (simp_all add: analysed_def)

lemma search_topic_fetch_error:
  "axios_get env i (redditUrl topic) = Inl err \<Longrightarrow>
   search_topic env i topic (rs, db) =
     (rs @ [\<lparr>link = redditUrl topic,
             idea = Some (JStr (''Error fetching the subreddit page: '' @ message err)),
             probability = Some (JNum 0)\<rparr>], db)"
  by (simp add: search_topic_def)

lemma search_topic_cheerio_error:
  "axios_get env i (redditUrl topic) = Inr html \<Longrightarrow> cheerio_body_text env html = Inl err \<Longrightarrow>
   search_topic env i topic (rs, db) =
     (rs @ [\<lparr>link = redditUrl topic, idea = Some (JStr ''Error parsing the subreddit page.''),
             probability = Some (JNum 0)\<rparr>], db)"
  by (simp add: search_topic_def)

lemma search_topic_analysis_error:
  "axios_get env i (redditUrl topic) = Inr html \<Longrightarrow> cheerio_body_text env html = Inr tc \<Longrightarrow>
   analysed env i topic tc = Inl err \<Longrightarrow>
   search_topic env i topic (rs, db) =
     (rs @ [\<lparr>link = redditUrl topic, idea = Some (JStr ''Could not generate or parse analysis.''),
             probability = Some (JNum 0)\<rparr>], db)"
  by (simp add: search_topic_def analysis_eq)

lemma topic_result_eq:
  "search_topic env i topic ([], \<lparr>rows = [], seq = 0\<rparr>) = (rs @ [e], db') \<Longrightarrow>
   topic_result env i topic = e"
  by (simp add: topic_result_def)

lemma topic_result_same:
  assumes "same_elsewhere i env env'" and "j \<noteq> i"
  shows "topic_result env' j topic = topic_result env j topic"
proof -
  from assms have eqs:
    "axios_get env' j = axios_get env j"
    "generateContent env' (Suc j) = generateContent env (Suc j)"
    "db_run_error env' j = db_run_error env j"
    "cheerio_body_text env' = cheerio_body_text env"
    "JSON_parse env' = JSON_parse env"
    by (simp_all add: same_elsewhere_def)
  show ?thesis
    unfolding topic_result_formula analysed_def eqs ..
qed

text \<open>
  C2. A failure of the fetch, of the extraction or of the analysis (the call, the reading
  of its text, the parsing) for topic \<open>i\<close> leaves the reply a 200 with one entry per
  topic; entry \<open>i\<close> is the placeholder of that stage, with probability 0 and the stage's
  message as idea. An environment that differs for topic \<open>i\<close> only yields the same
  entries for all other topics. The witness injects a fetch failure for the second of
  three topics.
\<close>

theorem topic_failure_gives_placeholder:
  assumes ok: "generateContent env 0 prompt = Inr (Inr raw)"
      and i: "i < length (topics_of raw)"
  shows "\<exists>results db'.
           search env db = (Reply 200 (Json results), db')
         \<and> length results = length (topics_of raw)
         \<and> (\<forall>err. axios_get env i (redditUrl (topics_of raw ! i)) = Inl err \<longrightarrow>
               results ! i =
                 \<lparr>link = redditUrl (topics_of raw ! i),
                  idea = Some (JStr (''Error fetching the subreddit page: '' @ message err)),
                  probability = Some (JNum 0)\<rparr>)
         \<and> (\<forall>html err. axios_get env i (redditUrl (topics_of raw ! i)) = Inr html
                 \<and> cheerio_body_text env html = Inl err \<longrightarrow>
               results ! i =
                 \<lparr>link = redditUrl (topics_of raw ! i),
                  idea = Some (JStr ''Error parsing the subreddit page.''),
                  probability = Some (JNum 0)\<rparr>)
         \<and> (\<forall>html tc err. axios_get env i (redditUrl (topics_of raw ! i)) = Inr html
                 \<and> cheerio_body_text env html = Inr tc
                 \<and> (let answer = generateContent env (Suc i)
                                    (analysisPrompt (sanitizedTopic (topics_of raw ! i)) tc)
                    in answer = Inl err \<or> answer = Inr (Inl err)
                     \<or> (\<exists>text. answer = Inr (Inr text)
                           \<and> JSON_parse env (cleanedJsonText text) = Inl err)) \<longrightarrow>
               results ! i =
                 \<lparr>link = redditUrl (topics_of raw ! i),
                  idea = Some (JStr ''Could not generate or parse analysis.''),
                  probability = Some (JNum 0)\<rparr>)
         \<and> (\<forall>env'. same_elsewhere i env env' \<longrightarrow>
               (\<exists>results' db''.
                   search env' db = (Reply 200 (Json results'), db'')
                 \<and> length results' = length results
                 \<and> (\<forall>j < length results. j \<noteq> i \<longrightarrow> results' ! j = results ! j)))"
proof -
  let ?ts = "topics_of raw"
  let ?t = "?ts ! i"
  let ?rs = "\<lambda>env. map (\<lambda>(k, t). topic_result env k t) (zip [0 ..< length ?ts] ?ts)"
  have s: "search env db = (Reply 200 (Json (?rs env)), snd (search_loop env 0 ?ts ([], db)))"
    by (rule search_suggested [OF ok])
  have nth: "?rs e ! k = topic_result e k (?ts ! k)" if "k < length ?ts" for k e
    using that by simp
  have fetch: "?rs env ! i =
      \<lparr>link = redditUrl ?t,
       idea = Some (JStr (''Error fetching the subreddit page: '' @ message err)),
       probability = Some (JNum 0)\<rparr>"
    if "axios_get env i (redditUrl ?t) = Inl err" for err
    using topic_result_eq [of env i "?t" "[]", OF search_topic_fetch_error [OF that]] nth [OF i]
    by simp
  have parsing: "?rs env ! i =
      \<lparr>link = redditUrl ?t, idea = Some (JStr ''Error parsing the subreddit page.''),
       probability = Some (JNum 0)\<rparr>"
    if "axios_get env i (redditUrl ?t) = Inr html" "cheerio_body_text env html = Inl err"
    for html err
    using topic_result_eq [of env i "?t" "[]", OF search_topic_cheerio_error [OF that]] nth [OF i]
    by simp
  have analyse: "?rs env ! i =
      \<lparr>link = redditUrl ?t, idea = Some (JStr ''Could not generate or parse analysis.''),
       probability = Some (JNum 0)\<rparr>"
    if f: "axios_get env i (redditUrl ?t) = Inr html" "cheerio_body_text env html = Inr tc"
      and a: "let answer = generateContent env (Suc i) (analysisPrompt (sanitizedTopic ?t) tc)
              in answer = Inl err \<or> answer = Inr (Inl err)
               \<or> (\<exists>text. answer = Inr (Inr text)
                     \<and> JSON_parse env (cleanedJsonText text) = Inl err)"
    for html tc err
  proof -
    from a have "analysed env i ?t tc = Inl err"
      by (auto simp: Let_def intro: analysed_errors)
    from topic_result_eq [of env i "?t" "[]", OF search_topic_analysis_error [OF f this]] nth [OF i]
    show ?thesis by simp
  qed
  have others: "\<exists>results' db''.
        search env' db = (Reply 200 (Json results'), db'')
      \<and> length results' = length (?rs env)
      \<and> (\<forall>j < length (?rs env). j \<noteq> i \<longrightarrow> results' ! j = ?rs env ! j)"
    if same: "same_elsewhere i env env'" for env'
  proof -
    from same ok have ok': "generateContent env' 0 prompt = Inr (Inr raw)"
      by (simp add: same_elsewhere_def)
    have "?rs env' ! j = ?rs env ! j" if "j < length ?ts" "j \<noteq> i" for j
      using nth [OF that(1)] topic_result_same [OF same that(2)] by simp
    then show ?thesis
      using search_suggested [OF ok', of db] by simp
  qed
  show ?thesis
    apply (rule exI [of _ "?rs env"])
    apply (rule exI [of _ "snd (search_loop env 0 ?ts ([], db))"])
    apply (intro conjI allI impI)
    subgoal by (rule s)
    subgoal by simp
    subgoal using fetch by blast
    subgoal using parsing by blast
    subgoal using analyse by blast
    subgoal using others by blast
    done
qed

lemmas sample_defs = sample_env_def sample_env_ok_def sample_topics_def sample_object_def
  sample_object_ext_def sample_object_idea_only_def sample_parse_def LF_def empty_store_def inject_fetch_failure_def

lemmas run_defs = search_def topics_of_def search_topic_def analysis_def db_run_def
  not_null_violation_def stored_row_def column_value_def exact_int_def
  cleanedJsonText_def trim_def is_ws_def redditUrl_def sanitizedTopic_def strip_r_slash_def

lemma sample_run:
  "search (inject_fetch_failure 1 (Exn ''timeout'') sample_env_ok) empty_store =
     (Reply 200 (Json
        [\<lparr>link = ''https://www.reddit.com/r/aww'',
          idea = Some (JStr ''Pet sitting exchange''), probability = Some (JNum 70)\<rparr>,
         \<lparr>link = ''https://www.reddit.com/r/cats'',
          idea = Some (JStr ''Error fetching the subreddit page: timeout''),
          probability = Some (JNum 0)\<rparr>,
         \<lparr>link = ''https://www.reddit.com/r/diy'',
          idea = Some (JStr ''Pet sitting exchange''), probability = Some (JNum 70)\<rparr>]),
      \<lparr>rows =
         [\<lparr>rid = 1, vals = \<lparr>s_subreddit = SqlText ''https://www.reddit.com/r/aww'',
                             s_idea = SqlText ''Pet sitting exchange'',
                             s_probability = SqlInteger 70\<rparr>,
           createdAt = 1700000000\<rparr>,
          \<lparr>rid = 2, vals = \<lparr>s_subreddit = SqlText ''https://www.reddit.com/r/diy'',
                             s_idea = SqlText ''Pet sitting exchange'',
                             s_probability = SqlInteger 70\<rparr>,
           createdAt = 1700000000\<rparr>],
       seq = 2\<rparr>)"
  by (simp add: sample_defs run_defs)

theorem topic_failure_gives_placeholder_witness:
  "generateContent (inject_fetch_failure 1 (Exn ''timeout'') sample_env_ok) 0 prompt
     = Inr (Inr sample_topics)
   \<and> (1::nat) < length (topics_of sample_topics)
   \<and> axios_get (inject_fetch_failure 1 (Exn ''timeout'') sample_env_ok) 1
        (redditUrl (topics_of sample_topics ! 1)) = Inl (Exn ''timeout'')
   \<and> same_elsewhere 1 (inject_fetch_failure 1 (Exn ''timeout'') sample_env_ok) sample_env_ok
   \<and> fst (search (inject_fetch_failure 1 (Exn ''timeout'') sample_env_ok) empty_store) =
       Reply 200 (Json
        [\<lparr>link = ''https://www.reddit.com/r/aww'',
          idea = Some (JStr ''Pet sitting exchange''), probability = Some (JNum 70)\<rparr>,
         \<lparr>link = ''https://www.reddit.com/r/cats'',
          idea = Some (JStr ''Error fetching the subreddit page: timeout''),
          probability = Some (JNum 0)\<rparr>,
         \<lparr>link = ''https://www.reddit.com/r/diy'',
          idea = Some (JStr ''Pet sitting exchange''), probability = Some (JNum 70)\<rparr>])
   \<and> fst (search sample_env_ok empty_store) =
       Reply 200 (Json
        [\<lparr>link = ''https://www.reddit.com/r/aww'',
          idea = Some (JStr ''Pet sitting exchange''), probability = Some (JNum 70)\<rparr>,
         \<lparr>link = ''https://www.reddit.com/r/cats'',
          idea = Some (JStr ''Pet sitting exchange''), probability = Some (JNum 70)\<rparr>,
         \<lparr>link = ''https://www.reddit.com/r/diy'',
          idea = Some (JStr ''Pet sitting exchange''), probability = Some (JNum 70)\<rparr>])"
proof -
  let ?E = "inject_fetch_failure 1 (Exn ''timeout'') sample_env_ok"
  have g: "generateContent ?E 0 prompt = Inr (Inr sample_topics)"
    by (simp add: sample_defs)
  have i: "(1::nat) < length (topics_of sample_topics)"
    by (simp add: sample_defs run_defs)
  have same: "same_elsewhere 1 ?E sample_env_ok"
    by (simp add: same_elsewhere_def sample_defs)
  show ?thesis
    using topic_failure_gives_placeholder [OF g i, of empty_store] g i same
    by (simp add: sample_defs run_defs)
qed

section \<open>Failures of the whole request\<close>

text \<open>
  C8, as the code has it. A throw of the suggestion call is answered at once by a 500
  with the message of the error, and the store is untouched. A throw while reading the
  text of the suggestion response is answered by the outer handler with a generic 500.
  Whenever the text is read, the reply is a 200 with one entry per topic.
\<close>

theorem search_fatal_cases:
  "(\<forall>err. generateContent env 0 prompt = Inl err \<longrightarrow>
      search env db = (Reply 500 (Failure ''Gemini API Error'' (Some (message err))), db))
   \<and> (\<forall>err. generateContent env 0 prompt = Inr (Inl err) \<longrightarrow>
      search env db = (Reply 500 (Failure ''An error occurred during the search.'' None), db))
   \<and> (\<forall>raw. generateContent env 0 prompt = Inr (Inr raw) \<longrightarrow>
      (\<exists>results db'. search env db = (Reply 200 (Json results), db')
         \<and> length results = length (topics_of raw)))"
proof (intro conjI allI impI)
  fix raw assume "generateContent env 0 prompt = Inr (Inr raw)"
  from search_suggested [OF this, of db]
  show "\<exists>results db'. search env db = (Reply 200 (Json results), db')
         \<and> length results = length (topics_of raw)"
    by simp
qed (simp_all add: search_def)

theorem search_fatal_cases_witness:
  "generateContent sample_env_blocked 0 prompt = Inr (Inl (Exn ''Text not available.''))
   \<and> search sample_env_blocked empty_store =
       (Reply 500 (Failure ''An error occurred during the search.'' None), empty_store)
   \<and> generateContent sample_env 0 prompt = Inr (Inr sample_topics)
   \<and> status (fst (search sample_env empty_store)) = 200"
  using search_fatal_cases [of sample_env_blocked empty_store]
        search_fatal_cases [of sample_env empty_store]
  by (auto simp: sample_env_blocked_def sample_env_def)

text \<open>
  C8 as stated fails: the suggestion call returns, reading its text throws, and the whole
  request fails with a 500.
\<close>

theorem text_failure_counterexample:
  "generateContent sample_env_blocked 0 prompt = Inr (Inl (Exn ''Text not available.''))
   \<and> search sample_env_blocked empty_store =
       (Reply 500 (Failure ''An error occurred during the search.'' None), empty_store)"
  by (simp add: sample_env_blocked_def sample_env_def search_def)

section \<open>The overall score\<close>

text \<open>The mean of four integers printed with one decimal.\<close>

lemma toFixed1_quarters:
  assumes "0 \<le> s"
  shows "toFixed1 (of_int s / 4) =
           digits10 (nat ((5 * s + 1) div 2) div 10) @ ''.'' @
           [digit (nat ((5 * s + 1) div 2) mod 10)]"
proof -
  have "\<bar>(of_int s :: rat) / 4\<bar> * 10 + 1 / 2 = of_int (5 * s + 1) / of_int 2"
    using assms by (simp add: field_simps)
  then have "\<lfloor>\<bar>(of_int s :: rat) / 4\<bar> * 10 + 1 / 2\<rfloor> = (5 * s + 1) div 2"
    by (simp only: floor_divide_of_int_eq)
  moreover have "\<not> (of_int s :: rat) / 4 < 0"
    using assms by simp
  ultimately show ?thesis
    by (simp add: toFixed1_def Let_def)
qed

lemma exact_int_of_int: "\<bar>a\<bar> \<le> 2 ^ 50 \<Longrightarrow> exact_int (Some (JNum (of_int a))) = Some a"
  by (simp add: exact_int_def)

lemma overallScore_exact:
  assumes "\<bar>a\<bar> \<le> 2 ^ 50" "\<bar>b\<bar> \<le> 2 ^ 50" "\<bar>c\<bar> \<le> 2 ^ 50" "\<bar>d\<bar> \<le> 2 ^ 50"
  shows "overallScore env (Some (JNum (of_int a))) (Some (JNum (of_int b)))
           (Some (JNum (of_int c))) (Some (JNum (of_int d))) =
         toFixed1 (of_int (a + b + c + d) / 4)"
  using assms by (simp add: overallScore_def exact_int_of_int)

lemma sample_overall:
  "overallScore env (Some (JNum 80)) (Some (JNum 60)) (Some (JNum 40)) (Some (JNum 90)) = ''67.5''"
proof -
  have "toFixed1 (of_int 270 / 4) = ''67.5''"
    using toFixed1_quarters [of 270]
    by (simp add: digits10.simps [of 67] digits10.simps [of 6] digit_def)
  then show ?thesis
    using overallScore_exact [of 80 60 40 90 env] by simp
qed

text \<open>Reading the printed numeral back.\<close>

lemma digit_facts:
  "digit_value (digit d) = d mod 10" "digit d \<noteq> CHR ''.''" "CHR ''.'' \<noteq> digit d"
proof -
  define k where "k = d mod 10"
  then have "k < 10" by simp
  then have "k = 0 \<or> k = 1 \<or> k = 2 \<or> k = 3 \<or> k = 4 \<or> k = 5 \<or> k = 6 \<or> k = 7
             \<or> k = 8 \<or> k = 9"
    by arith
  then have "digit_value (''0123456789'' ! k) = k \<and> ''0123456789'' ! k \<noteq> CHR ''.''"
    by (elim disjE) (simp_all add: digit_value_def)
  then show "digit_value (digit d) = d mod 10" "digit d \<noteq> CHR ''.''"
    "CHR ''.'' \<noteq> digit d"
    by (auto simp: digit_def k_def)
qed

lemma value10_snoc: "value10 (s @ [c]) = 10 * value10 s + digit_value c"
  by (simp add: value10_def)

lemma value10_digits10: "value10 (digits10 n) = n"
proof (induction n rule: digits10.induct)
  case (1 n)
  show ?case
  proof (cases "n < 10")
    case True
    then show ?thesis
      by (simp add: digits10.simps [of n] value10_def digit_facts)
  next
    case False
    with 1 show ?thesis
      by (simp add: digits10.simps [of n] value10_snoc digit_facts)
  qed
qed

lemma no_point_in_digits10: "CHR ''.'' \<notin> set (digits10 n)"
proof (induction n rule: digits10.induct)
  case (1 n)
  then show ?case
    by (cases "n < 10") (simp_all add: digits10.simps [of n] digit_facts)
qed

lemma decimal_value_fixed1:
  "decimal_value (digits10 q @ ''.'' @ [digit r]) = of_nat q + of_nat (r mod 10) / 10"
proof -
  have "\<forall>c\<in>set (digits10 q). c \<noteq> CHR ''.''"
    using no_point_in_digits10 [of q] by blast
  then have "takeWhile (\<lambda>c. c \<noteq> CHR ''.'') (digits10 q @ ''.'' @ [digit r]) = digits10 q"
    and "dropWhile (\<lambda>c. c \<noteq> CHR ''.'') (digits10 q @ ''.'' @ [digit r]) = ''.'' @ [digit r]"
    by simp_all
  moreover have "value10 [digit r] = r mod 10"
    by (simp add: value10_def digit_facts)
  ultimately show ?thesis
    by (simp add: decimal_value_def value10_digits10)
qed

text \<open>
  C6. For four sub-scores that are integers from 0 to 100, \<open>overallScore\<close> is the
  decimal numeral, with one digit after the point, of the arithmetic mean rounded to
  tenths: its value is \<open>round1\<close> of the mean, which is within one twentieth of the mean.
  The sub-scores 80, 60, 40 and 90 give \<open>67.5\<close>.
\<close>

theorem overallScore_rounded_mean:
  assumes "0 \<le> a" "a \<le> 100" "0 \<le> b" "b \<le> 100" "0 \<le> c" "c \<le> 100" "0 \<le> d" "d \<le> 100"
  shows "decimal_value (overallScore env (Some (JNum (of_int a))) (Some (JNum (of_int b)))
                          (Some (JNum (of_int c))) (Some (JNum (of_int d))))
           = round1 (mean4 a b c d)
       \<and> \<bar>round1 (mean4 a b c d) - mean4 a b c d\<bar> \<le> 1 / 20
       \<and> overallScore env (Some (JNum (of_int a))) (Some (JNum (of_int b)))
                          (Some (JNum (of_int c))) (Some (JNum (of_int d)))
           = digits10 (nat ((5 * (a + b + c + d) + 1) div 2) div 10) @ ''.'' @
             [digit (nat ((5 * (a + b + c + d) + 1) div 2) mod 10)]"
proof -
  let ?s = "a + b + c + d"
  let ?n = "nat ((5 * ?s + 1) div 2)"
  have s0: "0 \<le> ?s" using assms by simp
  have small: "\<bar>a\<bar> \<le> 2 ^ 50" "\<bar>b\<bar> \<le> 2 ^ 50" "\<bar>c\<bar> \<le> 2 ^ 50" "\<bar>d\<bar> \<le> 2 ^ 50"
    using assms by simp_all
  have shape: "overallScore env (Some (JNum (of_int a))) (Some (JNum (of_int b)))
                 (Some (JNum (of_int c))) (Some (JNum (of_int d)))
               = digits10 (?n div 10) @ ''.'' @ [digit (?n mod 10)]"
    by (simp only: overallScore_exact [OF small] toFixed1_quarters [OF s0])
  have m: "mean4 a b c d = of_int ?s / 4"
    by (simp add: mean4_def)
  have "mean4 a b c d * 10 + 1 / 2 = of_int (5 * ?s + 1) / of_int 2"
    by (simp add: m field_simps)
  then have fl: "\<lfloor>mean4 a b c d * 10 + 1 / 2\<rfloor> = (5 * ?s + 1) div 2"
    by (simp only: floor_divide_of_int_eq)
  have n0: "0 \<le> (5 * ?s + 1) div 2" using s0 by simp
  have e1: "(of_nat (?n div 10) :: rat) + of_nat (?n mod 10 mod 10) / 10 = of_nat ?n / 10"
  proof -
    have "(of_nat ?n :: rat) = of_nat (10 * (?n div 10) + ?n mod 10)" by simp
    also have "\<dots> = 10 * of_nat (?n div 10) + of_nat (?n mod 10)"
      by (simp only: of_nat_add of_nat_mult of_nat_numeral)
    finally show ?thesis by simp
  qed
  have e2: "(of_nat ?n :: rat) / 10 = round1 (mean4 a b c d)"
    using n0 by (simp add: round1_def fl)
  have val: "decimal_value (digits10 (?n div 10) @ ''.'' @ [digit (?n mod 10)])
                = round1 (mean4 a b c d)"
    unfolding decimal_value_fixed1 e1 e2 ..
  have near: "\<bar>round1 (mean4 a b c d) - mean4 a b c d\<bar> \<le> 1 / 20"
  proof -
    define F :: rat where "F = of_int \<lfloor>mean4 a b c d * 10 + 1 / 2\<rfloor>"
    have "F \<le> mean4 a b c d * 10 + 1 / 2" "mean4 a b c d * 10 + 1 / 2 < F + 1"
      unfolding F_def by linarith+
    moreover have "round1 (mean4 a b c d) = F / 10"
      by (simp add: round1_def F_def)
    ultimately show ?thesis by linarith
  qed
  show ?thesis
    using shape val near by simp
qed

theorem overallScore_rounded_mean_witness:
  "overallScore sample_env (Some (JNum 80)) (Some (JNum 60)) (Some (JNum 40)) (Some (JNum 90))
     = ''67.5''
   \<and> decimal_value ''67.5'' = 135 / 2
   \<and> mean4 80 60 40 90 = 135 / 2
   \<and> round1 (mean4 80 60 40 90) = 135 / 2"
proof -
  have "decimal_value (overallScore sample_env (Some (JNum (of_int 80)))
          (Some (JNum (of_int 60))) (Some (JNum (of_int 40))) (Some (JNum (of_int 90))))
        = round1 (mean4 80 60 40 90)"
    by (rule conjunct1 [OF overallScore_rounded_mean]) simp_all
  then have r: "round1 (mean4 80 60 40 90) = decimal_value ''67.5''"
    by (simp add: sample_overall)
  have d: "decimal_value ''67.5'' = 135 / 2"
    by (simp add: decimal_value_def value10_def digit_value_def)
  have m: "mean4 80 60 40 90 = 135 / 2"
    by (simp add: mean4_def)
  show ?thesis
  proof (intro conjI)
    show "round1 (mean4 80 60 40 90) = 135 / 2"
      using r d by (rule trans)
  qed (rule sample_overall d m)+
qed

section \<open>What reaches the store\<close>

lemma analysed_values:
  "generateContent env (Suc i) (analysisPrompt (sanitizedTopic topic) tc) = Inr (Inr text)
     \<Longrightarrow> JSON_parse env (cleanedJsonText text) = Inr j
     \<Longrightarrow> get_prop j ''businessIdea'' = Inr bi
     \<Longrightarrow> get_prop j ''gapProbability'' = Inr gp
     \<Longrightarrow> analysed env i topic tc = Inr (bi, gp)"
  by (simp add: analysed_def)

lemma search_topic_analysed:
  assumes "axios_get env i (redditUrl topic) = Inr html"
      and "cheerio_body_text env html = Inr tc"
      and "analysed env i topic tc = Inr (bi, gp)"
  shows "search_topic env i topic (rs, db) =
           (if truthy bi \<and> truthy gp
            then (case db_run_error env i of
                    Some err \<Rightarrow>
                      (rs @ [\<lparr>link = redditUrl topic,
                              idea = Some (JStr ''Could not generate or parse analysis.''),
                              probability = Some (JNum 0)\<rparr>], db)
                  | None \<Rightarrow>
                      (rs @ [\<lparr>link = redditUrl topic, idea = bi, probability = gp\<rparr>],
                       db\<lparr>rows := rows db @
                                 [\<lparr>rid = Suc (seq db),
                                   vals = \<lparr>s_subreddit = SqlText (redditUrl topic),
                                           s_idea = column_value env TextAffinity bi,
                                           s_probability = column_value env IntegerAffinity gp\<rparr>,
                                   createdAt = current_timestamp env i\<rparr>],
                           seq := Suc (seq db)\<rparr>))
            else (rs @ [\<lparr>link = redditUrl topic, idea = bi, probability = gp\<rparr>], db))"
  using assms by (simp add: search_topic_formula)

text \<open>The same steps for the revision with four sub-scores.\<close>

lemma db_run_ext_cases:
  "db_run_ext env i db
     \<lparr>subreddit_ext = url, idea_col_ext = bi, pain_point = pp, audience_scale = au,
      monetization_potential = mo, feasibility_col = fe, overall_score = ov\<rparr> =
   (case db_run_error env i of
      Some err \<Rightarrow> Inl err
    | None \<Rightarrow>
        if is_null bi \<or> is_null pp \<or> is_null au \<or> is_null mo \<or> is_null fe
        then Inl (the (not_null_violation
                         [(''idea'', bi), (''pain_point'', pp), (''audience_scale'', au),
                          (''monetization_potential'', mo), (''feasibility'', fe)]))
        else Inr (db\<lparr>rows := rows db @
                          [\<lparr>rid = Suc (seq db),
                            vals = \<lparr>x_subreddit = SqlText url,
                                    x_idea = column_value env TextAffinity bi,
                                    x_pain_point = column_value env IntegerAffinity pp,
                                    x_audience_scale = column_value env IntegerAffinity au,
                                    x_monetization_potential =
                                      column_value env IntegerAffinity mo,
                                    x_feasibility = column_value env IntegerAffinity fe,
                                    x_overall_score =
                                      column_value env RealAffinity (Some (JStr ov))\<rparr>,
                            createdAt = current_timestamp env i\<rparr>],
                    seq := Suc (seq db)\<rparr>))"
proof -
  let ?cols = "[(''idea'', bi), (''pain_point'', pp), (''audience_scale'', au),
                (''monetization_potential'', mo), (''feasibility'', fe)]"
  have "not_null_violation ?cols = None \<longleftrightarrow>
          \<not> (is_null bi \<or> is_null pp \<or> is_null au \<or> is_null mo \<or> is_null fe)"
    by (simp add: not_null_violation_None)
  then show ?thesis
    by (auto simp: db_run_ext_def stored_row_def split: option.split)
qed

lemma analysis_ext_values:
  assumes "generateContent env (Suc i) (analysisPrompt_ext (sanitizedTopic topic) tc)
             = Inr (Inr text)"
      and "JSON_parse env (cleanedJsonText text) = Inr j"
      and "get_prop j ''businessIdea'' = Inr bi"
      and "get_prop j ''painPoint'' = Inr pp"
      and "get_prop j ''audienceScale'' = Inr au"
      and "get_prop j ''monetizationPotential'' = Inr mo"
      and "get_prop j ''feasibility'' = Inr fe"
  shows "analysis_ext env i topic tc (rs, db) =
           (case (if truthy bi
                  then db_run_ext env i db
                         \<lparr>subreddit_ext = redditUrl topic, idea_col_ext = bi, pain_point = pp,
                          audience_scale = au, monetization_potential = mo,
                          feasibility_col = fe, overall_score = overallScore env pp au mo fe\<rparr>
                  else Inr db) of
              Inl err \<Rightarrow> Inl err
            | Inr db' \<Rightarrow>
                Inr (rs @ [\<lparr>link_ext = redditUrl topic, idea_ext = bi, pain = pp, audience = au,
                            monetization = mo, feasibility = fe,
                            overall = Some (JStr (overallScore env pp au mo fe))\<rparr>], db'))"
  using assms by (simp add: analysis_ext_def Let_def)

lemma search_topic_ext_values:
  assumes "axios_get env i (redditUrl topic) = Inr html"
      and "cheerio_body_text env html = Inr tc"
      and "generateContent env (Suc i) (analysisPrompt_ext (sanitizedTopic topic) tc)
             = Inr (Inr text)"
      and "JSON_parse env (cleanedJsonText text) = Inr j"
      and "get_prop j ''businessIdea'' = Inr bi"
      and "get_prop j ''painPoint'' = Inr pp"
      and "get_prop j ''audienceScale'' = Inr au"
      and "get_prop j ''monetizationPotential'' = Inr mo"
      and "get_prop j ''feasibility'' = Inr fe"
  shows "search_topic_ext env i topic (rs, db) =
           (if truthy bi
            then (if db_run_error env i \<noteq> None
                     \<or> is_null pp \<or> is_null au \<or> is_null mo \<or> is_null fe
                  then (rs @ [placeholder_ext (redditUrl topic)
                                ''Could not generate or parse analysis.''], db)
                  else
                      (rs @ [\<lparr>link_ext = redditUrl topic, idea_ext = bi, pain = pp,
                              audience = au, monetization = mo, feasibility = fe,
                              overall = Some (JStr (overallScore env pp au mo fe))\<rparr>],
                       db\<lparr>rows := rows db @
                                 [\<lparr>rid = Suc (seq db),
                                   vals = \<lparr>x_subreddit = SqlText (redditUrl topic),
                                           x_idea = column_value env TextAffinity bi,
                                           x_pain_point = column_value env IntegerAffinity pp,
                                           x_audience_scale =
                                             column_value env IntegerAffinity au,
                                           x_monetization_potential =
                                             column_value env IntegerAffinity mo,
                                           x_feasibility = column_value env IntegerAffinity fe,
                                           x_overall_score =
                                             column_value env RealAffinity
                                               (Some (JStr (overallScore env pp au mo fe)))\<rparr>,
                                   createdAt = current_timestamp env i\<rparr>],
                           seq := Suc (seq db)\<rparr>))
            else (rs @ [\<lparr>link_ext = redditUrl topic, idea_ext = bi, pain = pp,
                         audience = au, monetization = mo, feasibility = fe,
                         overall = Some (JStr (overallScore env pp au mo fe))\<rparr>], db))"
proof (cases "truthy bi")
  case True
  then have "\<not> is_null bi" by (rule truthy_not_null)
  with True show ?thesis
    using assms(1,2) analysis_ext_values [OF assms(3-9), of rs db]
    by (auto simp: search_topic_ext_def db_run_ext_cases split: option.split)
next
  case False
  then show ?thesis
    using assms(1,2) analysis_ext_values [OF assms(3-9), of rs db]
    by (simp add: search_topic_ext_def)
qed

lemma search_topic_keeps_store_on_error:
  "axios_get env i (redditUrl topic) = Inl err \<Longrightarrow>
     snd (search_topic env i topic (rs, db)) = db"
  "axios_get env i (redditUrl topic) = Inr html \<Longrightarrow> cheerio_body_text env html = Inl err
     \<Longrightarrow> snd (search_topic env i topic (rs, db)) = db"
  "axios_get env i (redditUrl topic) = Inr html \<Longrightarrow> cheerio_body_text env html = Inr tc
     \<Longrightarrow> analysis env i topic tc (rs, db) = Inl err
     \<Longrightarrow> snd (search_topic env i topic (rs, db)) = db"
  by (simp_all add: search_topic_def)

lemma search_topic_ext_keeps_store_on_error:
  "axios_get env i (redditUrl topic) = Inl err \<Longrightarrow>
     snd (search_topic_ext env i topic (rs, db)) = db"
  "axios_get env i (redditUrl topic) = Inr html \<Longrightarrow> cheerio_body_text env html = Inl err
     \<Longrightarrow> snd (search_topic_ext env i topic (rs, db)) = db"
  "axios_get env i (redditUrl topic) = Inr html \<Longrightarrow> cheerio_body_text env html = Inr tc
     \<Longrightarrow> analysis_ext env i topic tc (rs, db) = Inl err
     \<Longrightarrow> snd (search_topic_ext env i topic (rs, db)) = db"
  by (simp_all add: search_topic_ext_def)

text \<open>
  C3, as the code has it. Take a topic whose analysis parsed and an insert that does not
  fail for an outside reason. In \<open>index.js\<close> the table gains the row of the topic
  exactly when the idea and the probability are both truthy; a truthy value is never
  bound as \<open>NULL\<close>. In the revision with sub-scores the handler asks only whether the
  idea is truthy and does not look at the four sub-scores, but every column is
  \<open>NOT NULL\<close>: the row is stored exactly when the idea is truthy and no sub-score is
  \<open>undefined\<close> or \<open>null\<close>, and with a truthy idea and such a sub-score the insert
  is rejected and the topic gets the analysis placeholder. On each of the three
  placeholder paths the store is left as it was.
\<close>

theorem insert_iff_truthy_and_not_null:
  "(axios_get env i (redditUrl topic) = Inr html \<and> cheerio_body_text env html = Inr tc
      \<and> JSON_parse env (cleanedJsonText answer) = Inr j \<and> get_prop j ''businessIdea'' = Inr bi
      \<and> db_run_error env i = None \<longrightarrow>
      (generateContent env (Suc i) (analysisPrompt (sanitizedTopic topic) tc) = Inr (Inr answer)
         \<and> get_prop j ''gapProbability'' = Inr gp \<longrightarrow>
       rows (snd (search_topic env i topic (rs, db))) =
         (if truthy bi \<and> truthy gp
          then rows db @ [\<lparr>rid = Suc (seq db),
                           vals = \<lparr>s_subreddit = SqlText (redditUrl topic),
                                   s_idea = column_value env TextAffinity bi,
                                   s_probability = column_value env IntegerAffinity gp\<rparr>,
                           createdAt = current_timestamp env i\<rparr>]
          else rows db))
    \<and> (generateContent env (Suc i) (analysisPrompt_ext (sanitizedTopic topic) tc)
           = Inr (Inr answer)
         \<and> get_prop j ''painPoint'' = Inr pp \<and> get_prop j ''audienceScale'' = Inr au
         \<and> get_prop j ''monetizationPotential'' = Inr mo \<and> get_prop j ''feasibility'' = Inr fe
         \<longrightarrow>
       rows (snd (search_topic_ext env i topic (rsx, dbx))) =
         (if truthy bi \<and> \<not> is_null pp \<and> \<not> is_null au \<and> \<not> is_null mo \<and> \<not> is_null fe
          then rows dbx @ [\<lparr>rid = Suc (seq dbx),
                            vals = \<lparr>x_subreddit = SqlText (redditUrl topic),
                                    x_idea = column_value env TextAffinity bi,
                                    x_pain_point = column_value env IntegerAffinity pp,
                                    x_audience_scale = column_value env IntegerAffinity au,
                                    x_monetization_potential =
                                      column_value env IntegerAffinity mo,
                                    x_feasibility = column_value env IntegerAffinity fe,
                                    x_overall_score =
                                      column_value env RealAffinity
                                        (Some (JStr (overallScore env pp au mo fe)))\<rparr>,
                            createdAt = current_timestamp env i\<rparr>]
          else rows dbx)
       \<and> (truthy bi \<and> (is_null pp \<or> is_null au \<or> is_null mo \<or> is_null fe) \<longrightarrow>
            search_topic_ext env i topic (rsx, dbx) =
              (rsx @ [placeholder_ext (redditUrl topic)
                        ''Could not generate or parse analysis.''], dbx))))
   \<and> (\<forall>err. axios_get env i (redditUrl topic) = Inl err \<longrightarrow>
          snd (search_topic env i topic (rs, db)) = db
        \<and> snd (search_topic_ext env i topic (rsx, dbx)) = dbx)
   \<and> (\<forall>page err. axios_get env i (redditUrl topic) = Inr page
          \<and> cheerio_body_text env page = Inl err \<longrightarrow>
          snd (search_topic env i topic (rs, db)) = db
        \<and> snd (search_topic_ext env i topic (rsx, dbx)) = dbx)
   \<and> (\<forall>page content err. axios_get env i (redditUrl topic) = Inr page
          \<and> cheerio_body_text env page = Inr content
          \<and> analysis env i topic content (rs, db) = Inl err \<longrightarrow>
          snd (search_topic env i topic (rs, db)) = db)
   \<and> (\<forall>page content err. axios_get env i (redditUrl topic) = Inr page
          \<and> cheerio_body_text env page = Inr content
          \<and> analysis_ext env i topic content (rsx, dbx) = Inl err \<longrightarrow>
          snd (search_topic_ext env i topic (rsx, dbx)) = dbx)"
proof -
  have simple: "rows (snd (search_topic env i topic (rs, db))) =
         (if truthy bi \<and> truthy gp
          then rows db @ [\<lparr>rid = Suc (seq db),
                           vals = \<lparr>s_subreddit = SqlText (redditUrl topic),
                                   s_idea = column_value env TextAffinity bi,
                                   s_probability = column_value env IntegerAffinity gp\<rparr>,
                           createdAt = current_timestamp env i\<rparr>]
          else rows db)"
    if "axios_get env i (redditUrl topic) = Inr html" "cheerio_body_text env html = Inr tc"
      "generateContent env (Suc i) (analysisPrompt (sanitizedTopic topic) tc) = Inr (Inr answer)"
      "JSON_parse env (cleanedJsonText answer) = Inr j" "get_prop j ''businessIdea'' = Inr bi"
      "get_prop j ''gapProbability'' = Inr gp" "db_run_error env i = None"
    using that(7)
    by (simp add: search_topic_analysed [OF that(1,2) analysed_values [OF that(3-6)]])
  have ext: "search_topic_ext env i topic (rsx, dbx) =
           (if truthy bi
            then (if is_null pp \<or> is_null au \<or> is_null mo \<or> is_null fe
                  then (rsx @ [placeholder_ext (redditUrl topic)
                                ''Could not generate or parse analysis.''], dbx)
                  else
                      (rsx @ [\<lparr>link_ext = redditUrl topic, idea_ext = bi, pain = pp,
                              audience = au, monetization = mo, feasibility = fe,
                              overall = Some (JStr (overallScore env pp au mo fe))\<rparr>],
                       dbx\<lparr>rows := rows dbx @
                                 [\<lparr>rid = Suc (seq dbx),
                                   vals = \<lparr>x_subreddit = SqlText (redditUrl topic),
                                           x_idea = column_value env TextAffinity bi,
                                           x_pain_point = column_value env IntegerAffinity pp,
                                           x_audience_scale =
                                             column_value env IntegerAffinity au,
                                           x_monetization_potential =
                                             column_value env IntegerAffinity mo,
                                           x_feasibility = column_value env IntegerAffinity fe,
                                           x_overall_score =
                                             column_value env RealAffinity
                                               (Some (JStr (overallScore env pp au mo fe)))\<rparr>,
                                   createdAt = current_timestamp env i\<rparr>],
                           seq := Suc (seq dbx)\<rparr>))
            else (rsx @ [\<lparr>link_ext = redditUrl topic, idea_ext = bi, pain = pp,
                         audience = au, monetization = mo, feasibility = fe,
                         overall = Some (JStr (overallScore env pp au mo fe))\<rparr>], dbx))"
    if "axios_get env i (redditUrl topic) = Inr html" "cheerio_body_text env html = Inr tc"
      "generateContent env (Suc i) (analysisPrompt_ext (sanitizedTopic topic) tc)
         = Inr (Inr answer)"
      "JSON_parse env (cleanedJsonText answer) = Inr j" "get_prop j ''businessIdea'' = Inr bi"
      "get_prop j ''painPoint'' = Inr pp" "get_prop j ''audienceScale'' = Inr au"
      "get_prop j ''monetizationPotential'' = Inr mo" "get_prop j ''feasibility'' = Inr fe"
      "db_run_error env i = None"
    using that(10) by (simp add: search_topic_ext_values [OF that(1-9)])
  show ?thesis
    apply (intro conjI allI impI; (elim conjE)?)
    subgoal by (rule simple)
    subgoal by (simp add: ext)
    subgoal by (simp add: ext)
    subgoal by (simp add: search_topic_keeps_store_on_error)
    subgoal by (simp add: search_topic_ext_keeps_store_on_error)
    subgoal by (simp add: search_topic_keeps_store_on_error)
    subgoal by (simp add: search_topic_ext_keeps_store_on_error)
    subgoal by (simp add: search_topic_keeps_store_on_error)
    subgoal by (simp add: search_topic_ext_keeps_store_on_error)
    done
qed

lemmas run_ext_defs = search_ext_def search_topic_ext_def analysis_ext_def db_run_ext_def
  placeholder_ext_def sample_env_ext_def sample_env_ext_missing_def

theorem insert_iff_truthy_and_not_null_witness:
  "db_run_error sample_env 0 = None
   \<and> truthy (Some (JStr ''Pet sitting exchange'')) \<and> truthy (Some (JNum 70))
   \<and> rows (snd (search_topic sample_env 0 ''r/aww'' ([], empty_store))) =
       [\<lparr>rid = 1, vals = \<lparr>s_subreddit = SqlText ''https://www.reddit.com/r/aww'',
                           s_idea = SqlText ''Pet sitting exchange'',
                           s_probability = SqlInteger 70\<rparr>,
         createdAt = 1700000000\<rparr>]
   \<and> \<not> truthy (Some (JStr []))
   \<and> rows (snd (search_topic sample_env 2 '' diy '' ([], empty_store))) = []
   \<and> rows (snd (search_topic_ext sample_env_ext 0 ''aww'' ([], empty_store))) =
       [\<lparr>rid = 1, vals = \<lparr>x_subreddit = SqlText ''https://www.reddit.com/r/aww'',
                           x_idea = SqlText ''Pet sitting exchange'',
                           x_pain_point = SqlInteger 80, x_audience_scale = SqlInteger 60,
                           x_monetization_potential = SqlInteger 40,
                           x_feasibility = SqlInteger 90, x_overall_score = SqlReal (135 / 2)\<rparr>,
         createdAt = 1700000000\<rparr>]
   \<and> is_null None
   \<and> search_topic_ext sample_env_ext_missing 0 ''aww'' ([], empty_store) =
       ([placeholder_ext ''https://www.reddit.com/r/aww''
           ''Could not generate or parse analysis.''], empty_store)"
  using insert_iff_truthy_and_not_null
          [where env = sample_env and i = 0 and topic = "''r/aww''"
             and html = "''<body>posts</body>''" and tc = "''posts''"
             and answer = "''```json'' @ LF @ sample_object @ LF @ ''```''"
             and j = "JObj [(''businessIdea'', JStr ''Pet sitting exchange''),
                            (''gapProbability'', JNum 70)]"
             and bi = "Some (JStr ''Pet sitting exchange'')" and gp = "Some (JNum 70)"
             and rs = "[]" and db = empty_store]
        insert_iff_truthy_and_not_null
          [where env = sample_env and i = 2 and topic = "'' diy ''"
             and html = "''<body>posts</body>''" and tc = "''posts''"
             and answer = "[CHR ''{'', CHR 0x22] @ ''businessIdea'' @ [CHR 0x22] @ '': ''
                           @ [CHR 0x22, CHR 0x22, CHR ''}'']"
             and j = "JObj [(''businessIdea'', JStr [])]"
             and bi = "Some (JStr [])" and gp = None
             and rs = "[]" and db = empty_store]
        insert_iff_truthy_and_not_null
          [where env = sample_env_ext and i = 0 and topic = "''aww''"
             and html = "''<body>posts</body>''" and tc = "''posts''"
             and answer = sample_object_ext
             and j = "JObj [(''businessIdea'', JStr ''Pet sitting exchange''),
                            (''painPoint'', JNum 80), (''audienceScale'', JNum 60),
                            (''monetizationPotential'', JNum 40), (''feasibility'', JNum 90)]"
             and bi = "Some (JStr ''Pet sitting exchange'')"
             and pp = "Some (JNum 80)" and au = "Some (JNum 60)" and mo = "Some (JNum 40)"
             and fe = "Some (JNum 90)"
             and rsx = "[]" and dbx = empty_store]
        insert_iff_truthy_and_not_null
          [where env = sample_env_ext_missing and i = 0 and topic = "''aww''"
             and html = "''<body>posts</body>''" and tc = "''posts''"
             and answer = sample_object_idea_only
             and j = "JObj [(''businessIdea'', JStr ''Pet sitting exchange'')]"
             and bi = "Some (JStr ''Pet sitting exchange'')"
             and pp = None and au = None and mo = None and fe = None
             and rsx = "[]" and dbx = empty_store]
  by (simp add: sample_defs run_defs run_ext_defs sample_overall)

text \<open>
  C3 as stated fails: the analysis has a truthy idea and none of the sub-scores; the
  insert violates \<open>NOT NULL\<close>, nothing is stored and the entry is the placeholder.
\<close>

theorem missing_sub_scores_counterexample:
  "JSON_parse sample_env_ext_missing (cleanedJsonText sample_object_idea_only) =
     Inr (JObj [(''businessIdea'', JStr ''Pet sitting exchange'')])
   \<and> truthy (Some (JStr ''Pet sitting exchange''))
   \<and> db_run_error sample_env_ext_missing 0 = None
   \<and> search_ext sample_env_ext_missing empty_store =
       (Reply 200 (Json [placeholder_ext ''https://www.reddit.com/r/aww''
                           ''Could not generate or parse analysis.'']), empty_store)"
  by (simp add: sample_defs run_defs run_ext_defs)

lemma analysis_ext_appends:
  assumes "analysis_ext env i topic tc (rs, db) = Inr r"
  shows "\<exists>e db'. r = (rs @ [e], db')"
  using assms unfolding analysis_ext_def Let_def
  by (simp split: sum.splits) blast

lemma search_topic_ext_appends:
  "\<exists>e db'. search_topic_ext env i topic (rs, db) = (rs @ [e], db')"
proof (cases "axios_get env i (redditUrl topic)")
  case (Inl err)
  then show ?thesis by (simp add: search_topic_ext_def)
next
  case (Inr html)
  show ?thesis
  proof (cases "cheerio_body_text env html")
    case (Inl err)
    with Inr show ?thesis by (simp add: search_topic_ext_def)
  next
    case tc: (Inr tc)
    show ?thesis
    proof (cases "analysis_ext env i topic tc (rs, db)")
      case (Inl err)
      with Inr tc show ?thesis by (simp add: search_topic_ext_def)
    next
      case r: (Inr r)
      from analysis_ext_appends [OF this] Inr tc r show ?thesis
        by (simp add: search_topic_ext_def)
    qed
  qed
qed

lemma search_loop_ext_appends:
  "\<exists>es db'. search_loop_ext env i ts (rs, db) = (rs @ es, db') \<and> length es = length ts"
proof (induction ts arbitrary: i rs db)
  case Nil
  then show ?case by simp
next
  case (Cons t ts)
  obtain e db1 where step: "search_topic_ext env i t (rs, db) = (rs @ [e], db1)"
    using search_topic_ext_appends by blast
  obtain es db2 where rest:
    "search_loop_ext env (Suc i) ts (rs @ [e], db1) = ((rs @ [e]) @ es, db2)"
    "length es = length ts"
    using Cons.IH by blast
  have "search_loop_ext env i (t # ts) (rs, db) = (rs @ (e # es), db2)"
    using step rest by simp
  then show ?case using rest(2) by (intro exI [of _ "e # es"] exI [of _ db2]) simp
qed

lemma search_ext_suggested:
  assumes "generateContent env 0 prompt = Inr (Inr raw)"
  shows "\<exists>results db'. search_ext env db = (Reply 200 (Json results), db')
           \<and> length results = length (topics_of raw)"
proof -
  obtain es db' where "search_loop_ext env 0 (topics_of raw) ([], db) = ([] @ es, db')"
    "length es = length (topics_of raw)"
    using search_loop_ext_appends by blast
  then show ?thesis
    using assms by (simp add: search_ext_def)
qed

text \<open>
  C4, as the code has it. \<open>db.run\<close> is inside the innermost \<open>try\<close>: when the engine
  rejects the insert, \<open>catch (analysisError)\<close> appends the analysis placeholder for that
  topic, the store is unchanged, and the loop goes on with the remaining topics; the
  reply is still a 200 with one entry per topic.
\<close>

theorem insert_error_is_caught:
  "(axios_get env i (redditUrl topic) = Inr html \<and> cheerio_body_text env html = Inr tc
      \<and> JSON_parse env (cleanedJsonText answer) = Inr j \<and> get_prop j ''businessIdea'' = Inr bi
      \<and> truthy bi \<and> db_run_error env i = Some err \<longrightarrow>
      (generateContent env (Suc i) (analysisPrompt (sanitizedTopic topic) tc) = Inr (Inr answer)
         \<and> get_prop j ''gapProbability'' = Inr gp \<and> truthy gp \<longrightarrow>
       search_topic env i topic (rs, db) =
         (rs @ [\<lparr>link = redditUrl topic,
                 idea = Some (JStr ''Could not generate or parse analysis.''),
                 probability = Some (JNum 0)\<rparr>], db)
       \<and> search_loop env i (topic # rest) (rs, db) =
           search_loop env (Suc i) rest
             (rs @ [\<lparr>link = redditUrl topic,
                     idea = Some (JStr ''Could not generate or parse analysis.''),
                     probability = Some (JNum 0)\<rparr>], db))
    \<and> (generateContent env (Suc i) (analysisPrompt_ext (sanitizedTopic topic) tc)
           = Inr (Inr answer)
         \<and> get_prop j ''painPoint'' = Inr pp \<and> get_prop j ''audienceScale'' = Inr au
         \<and> get_prop j ''monetizationPotential'' = Inr mo \<and> get_prop j ''feasibility'' = Inr fe
         \<longrightarrow>
       search_topic_ext env i topic (rsx, dbx) =
         (rsx @ [placeholder_ext (redditUrl topic) ''Could not generate or parse analysis.''],
          dbx)
       \<and> search_loop_ext env i (topic # rest) (rsx, dbx) =
           search_loop_ext env (Suc i) rest
             (rsx @ [placeholder_ext (redditUrl topic)
                       ''Could not generate or parse analysis.''], dbx)))
   \<and> (\<forall>raw. generateContent env 0 prompt = Inr (Inr raw) \<longrightarrow>
         (\<exists>results db'. search env db = (Reply 200 (Json results), db')
            \<and> length results = length (topics_of raw))
       \<and> (\<exists>results db'. search_ext env dbx = (Reply 200 (Json results), db')
            \<and> length results = length (topics_of raw)))"
proof (intro conjI allI impI; (elim conjE)?)
  assume a: "axios_get env i (redditUrl topic) = Inr html" "cheerio_body_text env html = Inr tc"
    and b: "generateContent env (Suc i) (analysisPrompt (sanitizedTopic topic) tc)
              = Inr (Inr answer)"
      "JSON_parse env (cleanedJsonText answer) = Inr j" "get_prop j ''businessIdea'' = Inr bi"
      "get_prop j ''gapProbability'' = Inr gp"
    and c: "truthy bi" "truthy gp" "db_run_error env i = Some err"
  show step: "search_topic env i topic (rs, db) =
         (rs @ [\<lparr>link = redditUrl topic,
                 idea = Some (JStr ''Could not generate or parse analysis.''),
                 probability = Some (JNum 0)\<rparr>], db)"
    using c by (simp add: search_topic_analysed [OF a analysed_values [OF b]])
  show "search_loop env i (topic # rest) (rs, db) =
           search_loop env (Suc i) rest
             (rs @ [\<lparr>link = redditUrl topic,
                     idea = Some (JStr ''Could not generate or parse analysis.''),
                     probability = Some (JNum 0)\<rparr>], db)"
    by (simp add: step)
next
  assume a: "axios_get env i (redditUrl topic) = Inr html" "cheerio_body_text env html = Inr tc"
      "generateContent env (Suc i) (analysisPrompt_ext (sanitizedTopic topic) tc)
         = Inr (Inr answer)"
      "JSON_parse env (cleanedJsonText answer) = Inr j" "get_prop j ''businessIdea'' = Inr bi"
      "get_prop j ''painPoint'' = Inr pp" "get_prop j ''audienceScale'' = Inr au"
      "get_prop j ''monetizationPotential'' = Inr mo" "get_prop j ''feasibility'' = Inr fe"
    and c: "truthy bi" "db_run_error env i = Some err"
  show step: "search_topic_ext env i topic (rsx, dbx) =
         (rsx @ [placeholder_ext (redditUrl topic) ''Could not generate or parse analysis.''],
          dbx)"
    using c by (simp add: search_topic_ext_values [OF a])
  show "search_loop_ext env i (topic # rest) (rsx, dbx) =
           search_loop_ext env (Suc i) rest
             (rsx @ [placeholder_ext (redditUrl topic)
                       ''Could not generate or parse analysis.''], dbx)"
    by (simp add: step)
next
  fix raw assume ok: "generateContent env 0 prompt = Inr (Inr raw)"
  from search_suggested [OF ok, of db]
  show "\<exists>results db'. search env db = (Reply 200 (Json results), db')
         \<and> length results = length (topics_of raw)"
    by simp
  show "\<exists>results db'. search_ext env dbx = (Reply 200 (Json results), db')
         \<and> length results = length (topics_of raw)"
    by (rule search_ext_suggested [OF ok])
qed

text \<open>
  C4 as stated fails: the insert for the first of three topics is rejected, and the
  request still answers 200 with three entries and stores the two later rows.
\<close>

theorem insert_error_counterexample:
  "db_run_error sample_env_reject 0 = Some (Exn ''SQLITE_BUSY'')
   \<and> search sample_env_reject empty_store =
     (Reply 200 (Json
        [\<lparr>link = ''https://www.reddit.com/r/aww'',
          idea = Some (JStr ''Could not generate or parse analysis.''),
          probability = Some (JNum 0)\<rparr>,
         \<lparr>link = ''https://www.reddit.com/r/cats'',
          idea = Some (JStr ''Pet sitting exchange''), probability = Some (JNum 70)\<rparr>,
         \<lparr>link = ''https://www.reddit.com/r/diy'',
          idea = Some (JStr ''Pet sitting exchange''), probability = Some (JNum 70)\<rparr>]),
      \<lparr>rows =
         [\<lparr>rid = 1, vals = \<lparr>s_subreddit = SqlText ''https://www.reddit.com/r/cats'',
                             s_idea = SqlText ''Pet sitting exchange'',
                             s_probability = SqlInteger 70\<rparr>,
           createdAt = 1700000000\<rparr>,
          \<lparr>rid = 2, vals = \<lparr>s_subreddit = SqlText ''https://www.reddit.com/r/diy'',
                             s_idea = SqlText ''Pet sitting exchange'',
                             s_probability = SqlInteger 70\<rparr>,
           createdAt = 1700000000\<rparr>],
       seq = 2\<rparr>)"
  by (simp add: sample_env_reject_def sample_defs run_defs)

theorem insert_error_is_caught_witness:
  "db_run_error sample_env_reject 0 = Some (Exn ''SQLITE_BUSY'')
   \<and> search_topic sample_env_reject 0 ''r/aww'' ([], empty_store) =
       ([\<lparr>link = ''https://www.reddit.com/r/aww'',
          idea = Some (JStr ''Could not generate or parse analysis.''),
          probability = Some (JNum 0)\<rparr>], empty_store)
   \<and> status (fst (search sample_env_reject empty_store)) = 200
   \<and> search_ext sample_env_ext_reject empty_store =
       (Reply 200 (Json [placeholder_ext ''https://www.reddit.com/r/aww''
                           ''Could not generate or parse analysis.'']), empty_store)"
  using insert_error_is_caught
          [where env = sample_env_reject and i = 0 and topic = "''r/aww''"
             and html = "''<body>posts</body>''" and tc = "''posts''"
             and answer = sample_object
             and j = "JObj [(''businessIdea'', JStr ''Pet sitting exchange''),
                            (''gapProbability'', JNum 70)]"
             and bi = "Some (JStr ''Pet sitting exchange'')" and gp = "Some (JNum 70)"
             and err = "Exn ''SQLITE_BUSY''" and rest = "[]"
             and rs = "[]" and db = empty_store]
  by (simp add: sample_env_reject_def sample_env_ext_reject_def sample_env_ext_def
        sample_defs run_defs search_ext_def search_topic_ext_def analysis_ext_def db_run_ext_def)

lemma search_topic_plain_values:
  assumes "axios_get env i (redditUrl topic) = Inr html"
      and "cheerio_body_text env html = Inr tc"
      and "generateContent env (Suc i) (analysisPrompt (sanitizedTopic topic) tc)
             = Inr (Inr answer)"
      and "JSON_parse env (cleanedJsonText answer) = Inr j"
      and "get_prop j ''businessIdea'' = Inr bi"
      and "get_prop j ''gapProbability'' = Inr gp"
  shows "search_topic_plain env i topic rs =
           rs @ [\<lparr>link = redditUrl topic, idea = bi, probability = gp\<rparr>]"
  using assms by (simp add: search_topic_plain_def analysis_plain_def)

text \<open>
  C10. When the analysis parsed and its members can be read, but the idea or the
  probability is falsy, the entry appended carries the values as read (\<open>None\<close> is
  \<open>undefined\<close>), not the placeholder, and nothing is stored; the revision without a
  store appends the same entry.
\<close>

theorem falsy_fields_still_reported:
  "axios_get env i (redditUrl topic) = Inr html \<and> cheerio_body_text env html = Inr tc
     \<and> generateContent env (Suc i) (analysisPrompt (sanitizedTopic topic) tc) = Inr (Inr answer)
     \<and> JSON_parse env (cleanedJsonText answer) = Inr j
     \<and> get_prop j ''businessIdea'' = Inr bi \<and> get_prop j ''gapProbability'' = Inr gp
     \<and> \<not> (truthy bi \<and> truthy gp) \<longrightarrow>
   search_topic env i topic (rs, db) =
     (rs @ [\<lparr>link = redditUrl topic, idea = bi, probability = gp\<rparr>], db)
   \<and> search_topic_plain env i topic rs =
       rs @ [\<lparr>link = redditUrl topic, idea = bi, probability = gp\<rparr>]"
proof (intro impI, elim conjE)
  assume a: "axios_get env i (redditUrl topic) = Inr html" "cheerio_body_text env html = Inr tc"
    and b: "generateContent env (Suc i) (analysisPrompt (sanitizedTopic topic) tc)
              = Inr (Inr answer)"
      "JSON_parse env (cleanedJsonText answer) = Inr j" "get_prop j ''businessIdea'' = Inr bi"
      "get_prop j ''gapProbability'' = Inr gp"
    and c: "\<not> (truthy bi \<and> truthy gp)"
  from c have "(truthy bi \<and> truthy gp) = False" by simp
  then have "search_topic env i topic (rs, db) =
          (rs @ [\<lparr>link = redditUrl topic, idea = bi, probability = gp\<rparr>], db)"
    by (simp only: search_topic_analysed [OF a analysed_values [OF b]] if_False)
  then show "search_topic env i topic (rs, db) =
     (rs @ [\<lparr>link = redditUrl topic, idea = bi, probability = gp\<rparr>], db)
   \<and> search_topic_plain env i topic rs =
       rs @ [\<lparr>link = redditUrl topic, idea = bi, probability = gp\<rparr>]"
    by (simp add: search_topic_plain_values [OF a b])
qed

theorem falsy_fields_still_reported_witness:
  "get_prop (JObj [(''businessIdea'', JStr [])]) ''businessIdea'' = Inr (Some (JStr []))
   \<and> get_prop (JObj [(''businessIdea'', JStr [])]) ''gapProbability'' = Inr None
   \<and> \<not> (truthy (Some (JStr [])) \<and> truthy None)
   \<and> search_topic sample_env 2 '' diy '' ([], empty_store) =
       ([\<lparr>link = ''https://www.reddit.com/r/diy'', idea = Some (JStr []),
          probability = None\<rparr>], empty_store)
   \<and> search_topic_plain sample_env 2 '' diy '' [] =
       [\<lparr>link = ''https://www.reddit.com/r/diy'', idea = Some (JStr []), probability = None\<rparr>]"
  using falsy_fields_still_reported
          [where env = sample_env and i = 2 and topic = "'' diy ''"
             and html = "''<body>posts</body>''" and tc = "''posts''"
             and answer = "[CHR ''{'', CHR 0x22] @ ''businessIdea'' @ [CHR 0x22] @ '': ''
                           @ [CHR 0x22, CHR 0x22, CHR ''}'']"
             and j = "JObj [(''businessIdea'', JStr [])]"
             and bi = "Some (JStr [])" and gp = None
             and rs = "[]" and db = empty_store]
  by (simp add: sample_defs run_defs)

section \<open>Cleaning and parsing the analysis\<close>

lemma replace_all_skip:
  assumes "pat \<noteq> []" and "hd pat \<notin> set body"
  shows "replace_all pat (body @ rest) = body @ replace_all pat rest"
  using assms
proof (induction body)
  case Nil
  then show ?case by simp
next
  case (Cons c cs)
  then have "\<not> prefix pat (c # cs @ rest)"
    by (cases pat) auto
  with Cons show ?case by simp
qed

lemma replace_all_match:
  "pat \<noteq> [] \<Longrightarrow> replace_all pat (pat @ rest) = replace_all pat rest"
  by (cases pat) simp_all

lemma cleanedJsonText_fenced:
  assumes "CHR 0x60 \<notin> set body"
  shows "cleanedJsonText (''```json'' @ body @ ''```'') = trim body"
    and "cleanedJsonText body = trim body"
proof -
  have plain: "replace_all ''```json'' (body @ r) = body @ replace_all ''```json'' r"
              "replace_all ''```'' (body @ r) = body @ replace_all ''```'' r" for r
    using assms by (simp_all add: replace_all_skip)
  have j: "replace_all ''```json'' (''```json'' @ body @ ''```'') = body @ ''```''"
    using replace_all_match [of "''```json''" "body @ ''```''"] plain(1) [of "''```''"]
    by simp
  show "cleanedJsonText (''```json'' @ body @ ''```'') = trim body"
    using j plain(2) [of "''```''"] by (simp add: cleanedJsonText_def)
  show "cleanedJsonText body = trim body"
    using plain [of "[]"] by (simp add: cleanedJsonText_def)
qed

text \<open>
  C9. A text without backquotes is only trimmed, and so is such a text between
  \<open>```json\<close> and \<open>```\<close>: the fences are removed before parsing. When \<open>JSON.parse\<close>
  throws on the cleaned text, the topic gets the analysis placeholder and the store is
  unchanged; when it returns a value whose members can be read (and the engine accepts
  the insert), the entry carries them. Either way the request answers 200.
\<close>

theorem fenced_json_parsed_invalid_json_placeholder:
  "(CHR 0x60 \<notin> set body \<longrightarrow>
      cleanedJsonText (''```json'' @ body @ ''```'') = trim body
    \<and> cleanedJsonText body = trim body)
   \<and> (axios_get env i (redditUrl topic) = Inr html \<and> cheerio_body_text env html = Inr tc
        \<and> generateContent env (Suc i) (analysisPrompt (sanitizedTopic topic) tc)
            = Inr (Inr answer) \<longrightarrow>
        (\<forall>err. JSON_parse env (cleanedJsonText answer) = Inl err \<longrightarrow>
           search_topic env i topic (rs, db) =
             (rs @ [\<lparr>link = redditUrl topic,
                     idea = Some (JStr ''Could not generate or parse analysis.''),
                     probability = Some (JNum 0)\<rparr>], db))
      \<and> (\<forall>j bi gp. JSON_parse env (cleanedJsonText answer) = Inr j
             \<and> get_prop j ''businessIdea'' = Inr bi \<and> get_prop j ''gapProbability'' = Inr gp
             \<and> db_run_error env i = None \<longrightarrow>
           fst (search_topic env i topic (rs, db)) =
             rs @ [\<lparr>link = redditUrl topic, idea = bi, probability = gp\<rparr>]))
   \<and> (\<forall>raw. generateContent env 0 prompt = Inr (Inr raw) \<longrightarrow>
         (\<exists>results db'. search env db = (Reply 200 (Json results), db')
            \<and> length results = length (topics_of raw)))"
proof (intro conjI allI impI; (elim conjE)?)
  assume "CHR 0x60 \<notin> set body"
  then show "cleanedJsonText (''```json'' @ body @ ''```'') = trim body"
    and "cleanedJsonText body = trim body"
    by (rule cleanedJsonText_fenced)+
next
  fix err
  assume a: "axios_get env i (redditUrl topic) = Inr html" "cheerio_body_text env html = Inr tc"
    and b: "generateContent env (Suc i) (analysisPrompt (sanitizedTopic topic) tc)
              = Inr (Inr answer)"
      "JSON_parse env (cleanedJsonText answer) = Inl err"
  show "search_topic env i topic (rs, db) =
             (rs @ [\<lparr>link = redditUrl topic,
                     idea = Some (JStr ''Could not generate or parse analysis.''),
                     probability = Some (JNum 0)\<rparr>], db)"
    by (rule search_topic_analysis_error [OF a analysed_errors(3) [OF b]])
next
  fix j bi gp
  assume a: "axios_get env i (redditUrl topic) = Inr html" "cheerio_body_text env html = Inr tc"
    and b: "generateContent env (Suc i) (analysisPrompt (sanitizedTopic topic) tc)
              = Inr (Inr answer)"
      "JSON_parse env (cleanedJsonText answer) = Inr j" "get_prop j ''businessIdea'' = Inr bi"
      "get_prop j ''gapProbability'' = Inr gp"
    and c: "db_run_error env i = None"
  show "fst (search_topic env i topic (rs, db)) =
             rs @ [\<lparr>link = redditUrl topic, idea = bi, probability = gp\<rparr>]"
    using c by (simp add: search_topic_analysed [OF a analysed_values [OF b]])
next
  fix raw assume "generateContent env 0 prompt = Inr (Inr raw)"
  from search_suggested [OF this, of db]
  show "\<exists>results db'. search env db = (Reply 200 (Json results), db')
         \<and> length results = length (topics_of raw)"
    by simp
qed

theorem fenced_json_parsed_invalid_json_placeholder_witness:
  "CHR 0x60 \<notin> set (LF @ sample_object @ LF)
   \<and> cleanedJsonText (''```json'' @ LF @ sample_object @ LF @ ''```'') = sample_object
   \<and> cleanedJsonText (''```'' @ LF @ sample_object @ LF @ ''```'') = sample_object
   \<and> fst (search_topic sample_env 0 ''r/aww'' ([], empty_store)) =
       [\<lparr>link = ''https://www.reddit.com/r/aww'',
         idea = Some (JStr ''Pet sitting exchange''), probability = Some (JNum 70)\<rparr>]
   \<and> JSON_parse sample_env (cleanedJsonText ''Sorry, no idea.'') = Inl (Exn ''Unexpected token'')
   \<and> search_topic sample_env 1 ''R/cats'' ([], empty_store) =
       ([\<lparr>link = ''https://www.reddit.com/r/cats'',
          idea = Some (JStr ''Could not generate or parse analysis.''),
          probability = Some (JNum 0)\<rparr>], empty_store)
   \<and> status (fst (search sample_env empty_store)) = 200"
  using fenced_json_parsed_invalid_json_placeholder
          [where body = "LF @ sample_object @ LF"
             and env = sample_env and i = 1 and topic = "''R/cats''"
             and html = "''<body>posts</body>''" and tc = "''posts''"
             and answer = "''Sorry, no idea.''" and rs = "[]" and db = empty_store]
  by (simp add: sample_defs run_defs)

section \<open>The history query\<close>

lemma sorted_desc_sort_key:
  "sorted_wrt (\<lambda>a b. createdAt b \<le> createdAt a) (order_by_createdAt_desc rs)"
proof -
  have "sorted (map (\<lambda>r. - int (createdAt r)) (order_by_createdAt_desc rs))"
    by (simp add: order_by_createdAt_desc_def)
  then show ?thesis
    by (simp add: sorted_map sorted_wrt_iff_nth_less)
qed

lemma mset_order_by: "mset (order_by_createdAt_desc rs) = mset rs"
  by (simp add: order_by_createdAt_desc_def)

lemma order_by_stable:
  "filter (\<lambda>r. createdAt r = ts) (order_by_createdAt_desc rs) = filter (\<lambda>r. createdAt r = ts) rs"
proof -
  have "(createdAt r = ts) = (- int (createdAt r) = - int ts)" for r :: "'a row"
    by simp
  then show ?thesis
    unfolding order_by_createdAt_desc_def
    using sort_key_stable [of "\<lambda>r. - int (createdAt r)" "- int ts" rs]
    by simp
qed

text \<open>
  C5, as the code has it. When the query succeeds, \<open>/history\<close> answers 200 with all
  rows, ordered by \<open>createdAt\<close> descending. The query has no second sort key: rows with
  the same \<open>createdAt\<close> come out in the order of insertion, the earlier insert first.
  This holds for both revisions.
\<close>

theorem history_ordered_by_createdAt_only:
  "db_all_error env = None \<longrightarrow>
     (\<exists>hs. history env db = Reply 200 (Json hs)
        \<and> mset hs = mset (map select_columns (rows db))
        \<and> sorted_wrt (\<lambda>a b. h_createdAt b \<le> h_createdAt a) hs
        \<and> (\<forall>ts. filter (\<lambda>h. h_createdAt h = ts) hs =
                  map select_columns (filter (\<lambda>r. createdAt r = ts) (rows db))))
   \<and> (\<exists>xs. history_ext env dbx = Reply 200 (Json xs)
        \<and> mset xs = mset (rows dbx)
        \<and> sorted_wrt (\<lambda>a b. createdAt b \<le> createdAt a) xs
        \<and> (\<forall>ts. filter (\<lambda>r. createdAt r = ts) xs = filter (\<lambda>r. createdAt r = ts) (rows dbx)))"
proof (intro impI conjI)
  assume ok: "db_all_error env = None"
  let ?hs = "map select_columns (order_by_createdAt_desc (rows db))"
  have h: "h_createdAt (select_columns r) = createdAt r" for r
    by (simp add: select_columns_def)
  have "history env db = Reply 200 (Json ?hs)"
    using ok by (simp add: history_def)
  moreover have "mset ?hs = mset (map select_columns (rows db))"
    by (simp add: mset_order_by)
  moreover have "sorted_wrt (\<lambda>a b. h_createdAt b \<le> h_createdAt a) ?hs"
    using sorted_desc_sort_key [of "rows db"] by (simp add: sorted_wrt_map h)
  moreover have "filter (\<lambda>h. h_createdAt h = ts) ?hs =
      map select_columns (filter (\<lambda>r. createdAt r = ts) (rows db))" for ts
    using order_by_stable [of ts "rows db"] by (simp add: filter_map comp_def h)
  ultimately show "\<exists>hs. history env db = Reply 200 (Json hs)
        \<and> mset hs = mset (map select_columns (rows db))
        \<and> sorted_wrt (\<lambda>a b. h_createdAt b \<le> h_createdAt a) hs
        \<and> (\<forall>ts. filter (\<lambda>h. h_createdAt h = ts) hs =
                  map select_columns (filter (\<lambda>r. createdAt r = ts) (rows db)))"
    by blast
  show "\<exists>xs. history_ext env dbx = Reply 200 (Json xs)
        \<and> mset xs = mset (rows dbx)
        \<and> sorted_wrt (\<lambda>a b. createdAt b \<le> createdAt a) xs
        \<and> (\<forall>ts. filter (\<lambda>r. createdAt r = ts) xs = filter (\<lambda>r. createdAt r = ts) (rows dbx))"
    using ok sorted_desc_sort_key [of "rows dbx"] order_by_stable [of _ "rows dbx"]
    by (simp add: history_ext_def mset_order_by)
qed

theorem history_ordered_by_createdAt_only_witness:
  "db_all_error sample_env = None
   \<and> history sample_env
       \<lparr>rows = [\<lparr>rid = 1, vals = \<lparr>s_subreddit = SqlText ''a'',
                             s_idea = SqlText ''x'',
                             s_probability = SqlInteger 10\<rparr>, createdAt = 100\<rparr>,
                \<lparr>rid = 2, vals = \<lparr>s_subreddit = SqlText ''b'',
                             s_idea = SqlText ''y'',
                             s_probability = SqlInteger 20\<rparr>, createdAt = 205\<rparr>,
                \<lparr>rid = 3, vals = \<lparr>s_subreddit = SqlText ''c'',
                             s_idea = SqlText ''z'',
                             s_probability = SqlInteger 30\<rparr>, createdAt = 205\<rparr>],
        seq = 3\<rparr> =
     Reply 200 (Json
       [\<lparr>h_subreddit = SqlText ''b'',
         h_idea = SqlText ''y'', h_probability = SqlInteger 20,
         h_createdAt = 205\<rparr>,
        \<lparr>h_subreddit = SqlText ''c'',
         h_idea = SqlText ''z'', h_probability = SqlInteger 30,
         h_createdAt = 205\<rparr>,
        \<lparr>h_subreddit = SqlText ''a'',
         h_idea = SqlText ''x'', h_probability = SqlInteger 10,
         h_createdAt = 100\<rparr>])"
  using history_ordered_by_createdAt_only
          [where env = sample_env
             and db = "\<lparr>rows = [\<lparr>rid = 1, vals = \<lparr>s_subreddit = SqlText ''a'',
                             s_idea = SqlText ''x'',
                             s_probability = SqlInteger 10\<rparr>, createdAt = 100\<rparr>,
                \<lparr>rid = 2, vals = \<lparr>s_subreddit = SqlText ''b'',
                             s_idea = SqlText ''y'',
                             s_probability = SqlInteger 20\<rparr>, createdAt = 205\<rparr>,
                \<lparr>rid = 3, vals = \<lparr>s_subreddit = SqlText ''c'',
                             s_idea = SqlText ''z'',
                             s_probability = SqlInteger 30\<rparr>, createdAt = 205\<rparr>],
        seq = 3\<rparr>"]
  by (simp add: sample_env_def history_def order_by_createdAt_desc_def select_columns_def)

text \<open>
  C5 as stated fails: three rows inserted one after the other within the same second
  are listed in the order of insertion, the later inserts last.
\<close>

theorem same_second_inserts_counterexample:
  "snd (search sample_env_ok empty_store) =
     \<lparr>rows =
        [\<lparr>rid = 1, vals = \<lparr>s_subreddit = SqlText ''https://www.reddit.com/r/aww'',
                             s_idea = SqlText ''Pet sitting exchange'',
                             s_probability = SqlInteger 70\<rparr>,
          createdAt = 1700000000\<rparr>,
         \<lparr>rid = 2, vals = \<lparr>s_subreddit = SqlText ''https://www.reddit.com/r/cats'',
                             s_idea = SqlText ''Pet sitting exchange'',
                             s_probability = SqlInteger 70\<rparr>,
          createdAt = 1700000000\<rparr>,
         \<lparr>rid = 3, vals = \<lparr>s_subreddit = SqlText ''https://www.reddit.com/r/diy'',
                             s_idea = SqlText ''Pet sitting exchange'',
                             s_probability = SqlInteger 70\<rparr>,
          createdAt = 1700000000\<rparr>],
      seq = 3\<rparr>
   \<and> history sample_env_ok (snd (search sample_env_ok empty_store)) =
     Reply 200 (Json
       [\<lparr>h_subreddit = SqlText ''https://www.reddit.com/r/aww'',
         h_idea = SqlText ''Pet sitting exchange'', h_probability = SqlInteger 70,
         h_createdAt = 1700000000\<rparr>,
        \<lparr>h_subreddit = SqlText ''https://www.reddit.com/r/cats'',
         h_idea = SqlText ''Pet sitting exchange'', h_probability = SqlInteger 70,
         h_createdAt = 1700000000\<rparr>,
        \<lparr>h_subreddit = SqlText ''https://www.reddit.com/r/diy'',
         h_idea = SqlText ''Pet sitting exchange'', h_probability = SqlInteger 70,
         h_createdAt = 1700000000\<rparr>])"
  by (simp add: sample_defs run_defs history_def order_by_createdAt_desc_def select_columns_def)

end
